theory Spec2Isabelle
  imports Complex_Main
begin

section \<open>Data model\<close>

text \<open>
  The bot keeps money amounts as Python floats. A float is modelled by the real number
  that it denotes. The prize of a finished game is computed with the rounded operations
  of the next subsection; the store adds an amount to a balance with \<open>+\<close>, and the
  properties of the store are stated on its calls.
  User ids are Python ints. Strings are the source's own literals
  (\<open>''waiting''\<close>, \<open>''playing''\<close>, \<open>''finished''\<close>, \<open>''dice''\<close>, \<open>''coinflip''\<close>,
  \<open>''heads''\<close>, \<open>''tails''\<close>).
\<close>

subsection \<open>Python floats\<close>

text \<open>
  A Python float is an IEEE 754 binary64 number: at most 53 significant bits, the last
  place never below \<open>2\<close> to the \<open>-1074\<close>. The result of an operation is the exact
  result rounded to the nearest such number, a tie going to the even one. Infinities and
  NaN are not modelled: a result beyond the largest double is rounded like any other.
\<close>

function bit_length :: "int \<Rightarrow> int" where
  "bit_length n = (if n \<le> 0 then 0 else 1 + bit_length (n div 2))"
  by pat_completeness auto
termination
  by (relation "measure nat") auto

declare bit_length.simps [simp del]

definition pow2 :: "int \<Rightarrow> real" where
  "pow2 e = (if 0 \<le> e then 2 ^ nat e else 1 / 2 ^ nat (- e))"

text \<open>The \<open>e\<close> with \<open>pow2 e \<le> x < pow2 (e + 1)\<close>, for a positive \<open>x\<close>.\<close>

definition binade :: "real \<Rightarrow> int" where
  "binade x = (if 1 \<le> x then bit_length \<lfloor>x\<rfloor> - 1
               else - bit_length (\<lceil>1 / x\<rceil> - 1))"

definition round_half_even :: "real \<Rightarrow> int" where
  "round_half_even x =
     (let f = \<lfloor>x\<rfloor>; d = x - of_int f
      in if d < 1 / 2 then f
         else if d > 1 / 2 then f + 1
         else if even f then f else f + 1)"

definition round_double :: "real \<Rightarrow> real" where
  "round_double x =
     (if x = 0 then 0
      else (let e = max (binade \<bar>x\<bar> - 52) (- 1074);
                m = round_half_even (\<bar>x\<bar> / pow2 e)
            in sgn x * of_int m * pow2 e))"

text \<open>Python's \<open>*\<close>, \<open>-\<close> and \<open>/\<close> on floats (the divisor in the source is 100).\<close>

definition double_mul :: "real \<Rightarrow> real \<Rightarrow> real" where
  "double_mul x y = round_double (x * y)"

definition double_sub :: "real \<Rightarrow> real \<Rightarrow> real" where
  "double_sub x y = round_double (x - y)"

definition double_div :: "real \<Rightarrow> real \<Rightarrow> real" where
  "double_div x y = round_double (x / y)"

subsection \<open>multiplayer\_games.py: the room objects\<close>

text \<open>
  \<open>creator_result\<close> and \<open>opponent_result\<close> hold an int in a dice room and a
  string in a coinflip room.
\<close>

datatype outcome = Roll int | Side string

text \<open>
  One record for \<open>MultiplayerGame\<close> and its two subclasses. The constructors fix
  \<open>game_type\<close> (\<open>DiceGame\<close> to \<open>''dice''\<close>, \<open>CoinflipGame\<close> to
  \<open>''coinflip''\<close>) and nothing assigns it afterwards, so the class of a room is read off
  \<open>game_type\<close>. \<open>creator_choice\<close> is the attribute that only \<open>CoinflipGame\<close>
  has; a dice room carries \<open>None\<close> there and no dice operation reads it.
  \<open>created_at\<close> (a wall-clock stamp) is left out.
\<close>

record room =
  room_id :: string
  creator_id :: int
  opponent_id :: "int option"
  bet :: real
  game_type :: string
  status :: string
  creator_result :: "outcome option"
  opponent_result :: "outcome option"
  winner_id :: "int option"
  creator_choice :: "string option"

text \<open>
  The dictionaries that \<open>play\<close> returns, by shape:
  \<open>{"error": msg}\<close>,
  \<open>{"creator_result", "opponent_result", "winner_id", "is_draw"}\<close> and
  \<open>{"result", "creator_choice", "opponent_choice", "winner_id", "is_draw"}\<close>.
\<close>

datatype play_dict =
    ErrorDict string
  | DiceDict int int "int option" bool
  | CoinDict string string string "int option" bool

definition MultiplayerGame_init :: "string \<Rightarrow> int \<Rightarrow> real \<Rightarrow> string \<Rightarrow> room" where
  "MultiplayerGame_init rid creator b gt =
     \<lparr>room_id = rid, creator_id = creator, opponent_id = None, bet = b, game_type = gt,
      status = ''waiting'', creator_result = None, opponent_result = None,
      winner_id = None, creator_choice = None\<rparr>"

definition DiceGame_init :: "string \<Rightarrow> int \<Rightarrow> real \<Rightarrow> room" where
  "DiceGame_init rid creator b = MultiplayerGame_init rid creator b ''dice''"

definition CoinflipGame_init :: "string \<Rightarrow> int \<Rightarrow> real \<Rightarrow> room" where
  "CoinflipGame_init rid creator b =
     (MultiplayerGame_init rid creator b ''coinflip'')\<lparr>creator_choice := None\<rparr>"

text \<open>\<open>MultiplayerGame.join\<close>: the returned bool and the room after the call.\<close>

definition MultiplayerGame_join :: "room \<Rightarrow> int \<Rightarrow> bool \<times> room" where
  "MultiplayerGame_join r opponent =
     (if status r \<noteq> ''waiting'' then (False, r)
      else (True, r\<lparr>opponent_id := Some opponent, status := ''playing''\<rparr>))"

text \<open>
  \<open>DiceGame.play\<close>. The two calls of \<open>random.randint(1, 6)\<close> are the arguments
  \<open>a\<close> (creator) and \<open>b\<close> (opponent), in the order the source draws them.
\<close>

definition DiceGame_play :: "room \<Rightarrow> int \<Rightarrow> int \<Rightarrow> play_dict \<times> room" where
  "DiceGame_play r a b =
     (if status r \<noteq> ''playing'' then (ErrorDict ''Game is not ready'', r)
      else
        let w = (if a > b then Some (creator_id r)
                 else if b > a then opponent_id r
                 else None)
        in (DiceDict a b w (w = None),
            r\<lparr>creator_result := Some (Roll a), opponent_result := Some (Roll b),
              winner_id := w, status := ''finished''\<rparr>))"

text \<open>Python's \<open>str.lower\<close>, on the ASCII letters.\<close>

definition lower_char :: "char \<Rightarrow> char" where
  "lower_char c =
     (if 65 \<le> (of_char c :: nat) \<and> (of_char c :: nat) \<le> 90
      then char_of ((of_char c :: nat) + 32) else c)"

definition lower :: "string \<Rightarrow> string" where
  "lower s = map lower_char s"

text \<open>\<open>CoinflipGame.set_creator_choice\<close>: no test of any kind, one assignment.\<close>

definition CoinflipGame_set_creator_choice :: "room \<Rightarrow> string \<Rightarrow> room" where
  "CoinflipGame_set_creator_choice r choice = r\<lparr>creator_choice := Some (lower choice)\<rparr>"

definition CoinflipGame_get_opponent_choice :: "room \<Rightarrow> string" where
  "CoinflipGame_get_opponent_choice r =
     (if creator_choice r = Some ''heads'' then ''tails'' else ''heads'')"

text \<open>
  \<open>CoinflipGame.play\<close>. \<open>random.choice(["heads", "tails"])\<close> is the argument
  \<open>flip\<close>. \<open>not self.creator_choice\<close> holds for \<open>None\<close> and for the empty string.
\<close>

definition CoinflipGame_play :: "room \<Rightarrow> string \<Rightarrow> play_dict \<times> room" where
  "CoinflipGame_play r flip =
     (if status r \<noteq> ''playing'' then (ErrorDict ''Game is not ready'', r)
      else case creator_choice r of
        None \<Rightarrow> (ErrorDict ''Creator must make a choice'', r)
      | Some cc \<Rightarrow>
          if cc = [] then (ErrorDict ''Creator must make a choice'', r)
          else
            let opponent_choice = CoinflipGame_get_opponent_choice r;
                w = (if cc = flip then Some (creator_id r)
                     else if opponent_choice = flip then opponent_id r
                     else None)
            in (CoinDict flip cc opponent_choice w (w = None),
                r\<lparr>creator_result := Some (Side flip), opponent_result := Some (Side flip),
                  winner_id := w, status := ''finished''\<rparr>))"

subsection \<open>room\_manager.py: the registry\<close>

text \<open>Python's rendering of a non-negative int inside an f-string: its decimal digits.\<close>

fun str_nat :: "nat \<Rightarrow> string" where
  "str_nat n =
     (if n < 10 then [char_of (48 + n)]
      else str_nat (n div 10) @ [char_of (48 + n mod 10)])"

declare str_nat.simps [simp del]


text \<open>
  \<open>RoomManager\<close>: the dict \<open>active_rooms\<close> and the counter, which starts at 1000 and
  is only ever incremented. The rooms file is not modelled: \<open>save_rooms\<close> and
  \<open>load_rooms\<close> have no caller.
\<close>

record room_manager =
  active_rooms :: "string \<rightharpoonup> room"
  room_counter :: nat

definition RoomManager_init :: room_manager where
  "RoomManager_init = \<lparr>active_rooms = Map.empty, room_counter = 1000\<rparr>"

definition generate_room_id :: "room_manager \<Rightarrow> string \<times> room_manager" where
  "generate_room_id m =
     (let m1 = m\<lparr>room_counter := room_counter m + 1\<rparr>
      in (''ROOM'' @ str_nat (room_counter m1), m1))"

text \<open>
  \<open>RoomManager.create_room\<close>. \<open>None\<close> is the \<open>ValueError\<close> of an unknown game
  type; the id has been drawn by then, so the counter keeps its increment.
\<close>

definition create_room :: "room_manager \<Rightarrow> int \<Rightarrow> string \<Rightarrow> real \<Rightarrow> room option \<times> room_manager" where
  "create_room m creator gt b =
     (let (rid, m1) = generate_room_id m
      in if gt = ''dice'' then
           (let r = DiceGame_init rid creator b
            in (Some r, m1\<lparr>active_rooms := (active_rooms m1)(rid \<mapsto> r)\<rparr>))
         else if gt = ''coinflip'' then
           (let r = CoinflipGame_init rid creator b
            in (Some r, m1\<lparr>active_rooms := (active_rooms m1)(rid \<mapsto> r)\<rparr>))
         else (None, m1))"

definition get_room :: "room_manager \<Rightarrow> string \<Rightarrow> room option" where
  "get_room m rid = active_rooms m rid"

text \<open>
  A method call on a room held by the registry changes the object in place: the registry
  shows the new value under the same key.
\<close>

definition store_room :: "room_manager \<Rightarrow> string \<Rightarrow> room \<Rightarrow> room_manager" where
  "store_room m rid r = m\<lparr>active_rooms := (active_rooms m)(rid \<mapsto> r)\<rparr>"

text \<open>\<open>RoomManager.join_room\<close>.\<close>

definition join_room :: "room_manager \<Rightarrow> string \<Rightarrow> int \<Rightarrow> bool \<times> room_manager" where
  "join_room m rid opponent =
     (case get_room m rid of
        None \<Rightarrow> (False, m)
      | Some r \<Rightarrow>
          if creator_id r = opponent then (False, m)
          else (let (ok, r') = MultiplayerGame_join r opponent
                in (ok, store_room m rid r')))"

definition delete_room :: "room_manager \<Rightarrow> string \<Rightarrow> bool \<times> room_manager" where
  "delete_room m rid =
     (case active_rooms m rid of
        None \<Rightarrow> (False, m)
      | Some r \<Rightarrow> (True, m\<lparr>active_rooms := (active_rooms m)(rid := None)\<rparr>))"

subsection \<open>database.py: the balance store\<close>

text \<open>
  A user entry of the JSON file, without its two time stamps. The file is keyed by
  \<open>str(user_id)\<close>, which is one-to-one on ints, so the store is a map from the id.
  Every method loads the file, changes the dict and saves it: the store is passed in and
  returned.
\<close>

record game_record =
  h_game_type :: string
  h_bet :: real
  h_win_amount :: real
  h_profit :: real
  h_result :: string

record user =
  username :: "string option"
  balance :: real
  total_deposited :: real
  total_wagered :: real
  total_won :: real
  total_lost :: real
  games_played :: nat
  game_history :: "game_record list"

type_synonym database = "int \<rightharpoonup> user"

definition get_user :: "database \<Rightarrow> int \<Rightarrow> user option" where
  "get_user data uid = data uid"

definition create_user :: "database \<Rightarrow> int \<Rightarrow> string option \<Rightarrow> real \<Rightarrow> user \<times> database" where
  "create_user data uid name starting_balance =
     (case data uid of
        Some u \<Rightarrow> (u, data)
      | None \<Rightarrow>
          (let u = \<lparr>username = name, balance = starting_balance,
                    total_deposited = starting_balance, total_wagered = 0, total_won = 0,
                    total_lost = 0, games_played = 0, game_history = []\<rparr>
           in (u, data(uid \<mapsto> u))))"

text \<open>\<open>Database.update_balance\<close>: the returned float and the store after the call.\<close>

definition update_balance :: "database \<Rightarrow> int \<Rightarrow> real \<Rightarrow> real \<times> database" where
  "update_balance data uid amount =
     (case data uid of
        None \<Rightarrow> (0, data)
      | Some u \<Rightarrow>
          (let u' = u\<lparr>balance := balance u + amount\<rparr>
           in (balance u', data(uid \<mapsto> u'))))"

definition get_balance :: "database \<Rightarrow> int \<Rightarrow> real" where
  "get_balance data uid = (case get_user data uid of Some u \<Rightarrow> balance u | None \<Rightarrow> 0)"

definition add_game_to_history :: "database \<Rightarrow> int \<Rightarrow> string \<Rightarrow> real \<Rightarrow> real \<Rightarrow> string \<Rightarrow> database" where
  "add_game_to_history data uid gt b win_amount res =
     (case data uid of
        None \<Rightarrow> data
      | Some u \<Rightarrow>
          (let game = \<lparr>h_game_type = gt, h_bet = b, h_win_amount = win_amount,
                       h_profit = win_amount - b, h_result = res\<rparr>;
               u1 = u\<lparr>game_history := take 50 (game # game_history u),
                      games_played := games_played u + 1,
                      total_wagered := total_wagered u + b\<rparr>;
               u2 = (if win_amount > b then u1\<lparr>total_won := total_won u1 + (win_amount - b)\<rparr>
                     else u1\<lparr>total_lost := total_lost u1 + (b - win_amount)\<rparr>)
           in data(uid \<mapsto> u2)))"

text \<open>
  The handlers pass \<open>room.opponent_id\<close> and \<open>result['winner_id']\<close> to the store, and
  either can be Python's \<open>None\<close>. \<open>str(None)\<close> is no key of the file, so the store then
  answers as for an unknown user.
\<close>

definition get_user_opt :: "database \<Rightarrow> int option \<Rightarrow> user option" where
  "get_user_opt data uid = (case uid of None \<Rightarrow> None | Some i \<Rightarrow> get_user data i)"

definition update_balance_opt :: "database \<Rightarrow> int option \<Rightarrow> real \<Rightarrow> real \<times> database" where
  "update_balance_opt data uid amount =
     (case uid of None \<Rightarrow> (0, data) | Some i \<Rightarrow> update_balance data i amount)"

definition add_game_to_history_opt ::
    "database \<Rightarrow> int option \<Rightarrow> string \<Rightarrow> real \<Rightarrow> real \<Rightarrow> string \<Rightarrow> database" where
  "add_game_to_history_opt data uid gt b win_amount res =
     (case uid of None \<Rightarrow> data | Some i \<Rightarrow> add_game_to_history data i gt b win_amount res)"

subsection \<open>main.py: configuration, process state, replies\<close>

text \<open>The three settings of \<open>config.cfg\<close> that the room handlers read.\<close>

record config =
  MIN_BET :: real
  MAX_BET :: real
  HOUSE_FEE :: real

text \<open>An entry of the module-level dict \<open>rematch_requests\<close>.\<close>

record rematch_request =
  req_requester_id :: int
  req_opponent_id :: int
  req_game_type :: string
  req_bet :: real

text \<open>
  The key \<open>f"{min(p1, p2)}_{max(p1, p2)}_{game_type}_{bet}"\<close>, kept as the tuple of its
  four parts (the game type comes out of a split at underscores, so it holds none and the
  format is one-to-one).
\<close>

type_synonym pair_key = "int \<times> int \<times> string \<times> real"

text \<open>The module-level objects \<open>db\<close>, \<open>room_manager\<close> and \<open>rematch_requests\<close>.\<close>

record bot =
  db :: database
  rooms :: room_manager
  rematch_requests :: "pair_key \<rightharpoonup> rematch_request"

datatype py_error = TypeError | KeyError | IndexError | AttributeError | ValueError

text \<open>
  What a handler tells its caller: one constructor for each answer the handlers give,
  and \<open>Raised\<close> for an exception that leaves the handler.
\<close>

datatype reply =
    BetOutOfRange
  | InsufficientFunds
  | InvalidAmount
  | RoomCreated string
  | RoomNotAvailable
  | RoomAlreadyTaken
  | JoinFailed
  | ChoiceRequested
  | NothingStarted
  | GameAlreadyFinished
  | OnlyCreatorChooses
  | ResultShown
  | RematchAlreadyRequested
  | RematchRequested
  | Raised py_error

subsection \<open>main.py: settlement\<close>

text \<open>
  Lines 530 to 560 of \<open>show_dice_result\<close> and 671 to 699 of
  \<open>show_coinflip_result\<close> are the same statements up to the history tag
  (\<open>"dice_mp"\<close>, \<open>"coinflip_mp"\<close>): the balance updates and the history entries of a
  finished game, in the order of the source. The three assignments that compute the
  prize (lines 545 to 547 and 684 to 686) are \<open>final_prize\<close>, from the stake
  \<open>room.bet\<close> and the setting \<open>HOUSE_FEE\<close>.
\<close>

definition final_prize :: "real \<Rightarrow> real \<Rightarrow> real" where
  "final_prize stake house_fee =
     (let full_prize = double_mul stake 2;
          fee_amount = double_mul full_prize (double_div house_fee 100)
      in double_sub full_prize fee_amount)"

definition settle :: "config \<Rightarrow> database \<Rightarrow> room \<Rightarrow> int option \<Rightarrow> bool \<Rightarrow> string \<Rightarrow> database" where
  "settle cfg data r w is_draw tag =
     (if is_draw then
        (let d1 = snd (update_balance data (creator_id r) (bet r));
             d2 = snd (update_balance_opt d1 (opponent_id r) (bet r));
             d3 = add_game_to_history d2 (creator_id r) tag (bet r) (bet r) ''Draw'';
             d4 = add_game_to_history_opt d3 (opponent_id r) tag (bet r) (bet r) ''Draw''
         in d4)
      else
        (let winner_id = w;
             loser_id = (if winner_id = Some (creator_id r) then opponent_id r
                         else Some (creator_id r));
             prize = final_prize (bet r) (HOUSE_FEE cfg);
             d1 = snd (update_balance_opt data winner_id prize);
             d2 = add_game_to_history_opt d1 winner_id tag (bet r) prize ''Win'';
             d3 = add_game_to_history_opt d2 loser_id tag (bet r) 0 ''Loss''
         in d3))"

text \<open>
  \<open>dice_emoji[x - 1]\<close> on a list of six: Python accepts the indices from \<open>-6\<close> to
  \<open>5\<close> and raises \<open>IndexError\<close> otherwise.
\<close>

definition dice_emoji_ok :: "int \<Rightarrow> bool" where
  "dice_emoji_ok x = (- 6 \<le> x - 1 \<and> x - 1 \<le> 5)"

text \<open>\<open>choice_emoji[x]\<close>: a dict with the keys \<open>"heads"\<close> and \<open>"tails"\<close>.\<close>

definition choice_emoji_ok :: "string \<Rightarrow> bool" where
  "choice_emoji_ok x = (x = ''heads'' \<or> x = ''tails'')"

text \<open>
  \<open>show_dice_result\<close>. The user names are read first (\<open>None['username']\<close> is a
  \<open>TypeError\<close>), then the result dict (a missing key is a \<open>KeyError\<close>), then the
  game is settled and the room deleted. Sending the two messages cannot fail the handler.
\<close>

definition show_dice_result :: "config \<Rightarrow> bot \<Rightarrow> room \<Rightarrow> play_dict \<Rightarrow> reply \<times> bot" where
  "show_dice_result cfg st r result =
     (case get_user (db st) (creator_id r) of
        None \<Rightarrow> (Raised TypeError, st)
      | Some cu \<Rightarrow>
     (case get_user_opt (db st) (opponent_id r) of
        None \<Rightarrow> (Raised TypeError, st)
      | Some ou \<Rightarrow>
     (case result of
        DiceDict cr orr w is_draw \<Rightarrow>
          if \<not> dice_emoji_ok cr \<or> \<not> dice_emoji_ok orr then (Raised IndexError, st)
          else
            (let st1 = st\<lparr>db := settle cfg (db st) r w is_draw ''dice_mp''\<rparr>
             in (ResultShown, st1\<lparr>rooms := snd (delete_room (rooms st1) (room_id r))\<rparr>))
      | ErrorDict e \<Rightarrow> (Raised KeyError, st)
      | CoinDict res cc oc w is_draw \<Rightarrow> (Raised KeyError, st))))"

definition show_coinflip_result :: "config \<Rightarrow> bot \<Rightarrow> room \<Rightarrow> play_dict \<Rightarrow> reply \<times> bot" where
  "show_coinflip_result cfg st r result =
     (case get_user (db st) (creator_id r) of
        None \<Rightarrow> (Raised TypeError, st)
      | Some cu \<Rightarrow>
     (case get_user_opt (db st) (opponent_id r) of
        None \<Rightarrow> (Raised TypeError, st)
      | Some ou \<Rightarrow>
     (case result of
        CoinDict res cc oc w is_draw \<Rightarrow>
          if \<not> choice_emoji_ok res \<or> \<not> choice_emoji_ok cc \<or> \<not> choice_emoji_ok oc
          then (Raised KeyError, st)
          else
            (let st1 = st\<lparr>db := settle cfg (db st) r w is_draw ''coinflip_mp''\<rparr>
             in (ResultShown, st1\<lparr>rooms := snd (delete_room (rooms st1) (room_id r))\<rparr>))
      | ErrorDict e \<Rightarrow> (Raised KeyError, st)
      | DiceDict cr orr w is_draw \<Rightarrow> (Raised KeyError, st))))"

subsection \<open>main.py: starting and playing a game\<close>

text \<open>
  \<open>animate_dice_game\<close>. Both of its paths (the messages sent, or the sending failed)
  call \<open>room.play()\<close> once and hand the dict to \<open>show_dice_result\<close>. The room is
  the object that the registry holds, so the registry sees what \<open>play\<close> assigned.
\<close>

definition animate_dice_game :: "config \<Rightarrow> bot \<Rightarrow> room \<Rightarrow> int \<Rightarrow> int \<Rightarrow> reply \<times> bot" where
  "animate_dice_game cfg st r a b =
     (case get_user (db st) (creator_id r) of
        None \<Rightarrow> (Raised TypeError, st)
      | Some cu \<Rightarrow>
     (case get_user_opt (db st) (opponent_id r) of
        None \<Rightarrow> (Raised TypeError, st)
      | Some ou \<Rightarrow>
          (let (result, r1) = DiceGame_play r a b;
               st1 = st\<lparr>rooms := store_room (rooms st) (room_id r) r1\<rparr>
           in show_dice_result cfg st1 r1 result)))"

text \<open>\<open>request_coinflip_choices\<close> only sends two messages, each inside a \<open>try\<close>.\<close>

definition request_coinflip_choices :: "bot \<Rightarrow> room \<Rightarrow> reply \<times> bot" where
  "request_coinflip_choices st r = (ChoiceRequested, st)"

definition start_multiplayer_game :: "config \<Rightarrow> bot \<Rightarrow> room \<Rightarrow> int \<Rightarrow> int \<Rightarrow> reply \<times> bot" where
  "start_multiplayer_game cfg st r a b =
     (if game_type r = ''dice'' then animate_dice_game cfg st r a b
      else if game_type r = ''coinflip'' then request_coinflip_choices st r
      else (NothingStarted, st))"

text \<open>
  \<open>coinflip_choice\<close>, the handler of the two side buttons: \<open>uid\<close> is
  \<open>callback.from_user.id\<close>, \<open>rid\<close> and \<open>choice\<close> are the parts of the callback
  data. A dice room has no method \<open>set_creator_choice\<close> (\<open>AttributeError\<close>).
  \<open>choice_emoji[choice]\<close> is read after the choice has been stored.
\<close>

definition coinflip_choice :: "config \<Rightarrow> bot \<Rightarrow> int \<Rightarrow> string \<Rightarrow> string \<Rightarrow> string \<Rightarrow> reply \<times> bot" where
  "coinflip_choice cfg st uid rid choice flip =
     (case get_room (rooms st) rid of
        None \<Rightarrow> (GameAlreadyFinished, st)
      | Some r \<Rightarrow>
          if uid \<noteq> creator_id r then (OnlyCreatorChooses, st)
          else if game_type r \<noteq> ''coinflip'' then (Raised AttributeError, st)
          else
            (let r1 = CoinflipGame_set_creator_choice r choice;
                 st1 = st\<lparr>rooms := store_room (rooms st) rid r1\<rparr>
             in if \<not> choice_emoji_ok choice then (Raised KeyError, st1)
                else
                  (let (result, r2) = CoinflipGame_play r1 flip;
                       st2 = st1\<lparr>rooms := store_room (rooms st1) rid r2\<rparr>
                   in show_coinflip_result cfg st2 r2 result)))"

subsection \<open>main.py: creating and joining a room\<close>

text \<open>
  \<open>create_room_with_bet\<close>. \<open>parsed\<close> is \<open>float(message.text)\<close>, \<open>None\<close> when it
  raises \<open>ValueError\<close>; \<open>gt\<close> is the game type kept in the conversation state.
  The handler's \<open>except ValueError\<close> also catches the one of \<open>create_room\<close>.
  Beside the reply, the function gives the state after each write of the handler, in
  program order: every write is followed by an \<open>await\<close>, where other handlers run and
  see that state.
\<close>

definition create_room_with_bet_writes ::
    "config \<Rightarrow> bot \<Rightarrow> int \<Rightarrow> real option \<Rightarrow> string \<Rightarrow> reply \<times> bot list" where
  "create_room_with_bet_writes cfg st uid parsed gt =
     (case parsed of
        None \<Rightarrow> (InvalidAmount, [])
      | Some b \<Rightarrow>
          if b < MIN_BET cfg \<or> b > MAX_BET cfg then (BetOutOfRange, [])
          else
            (let balance = get_balance (db st) uid
             in if b > balance then (InsufficientFunds, [])
                else
                  (let (created, m1) = create_room (rooms st) uid gt b;
                       st1 = st\<lparr>rooms := m1\<rparr>
                   in case created of
                        None \<Rightarrow> (InvalidAmount, [st1])
                      | Some r \<Rightarrow>
                          (let st2 = st1\<lparr>db := snd (update_balance (db st1) uid (- b))\<rparr>
                           in (RoomCreated (room_id r), [st1, st2])))))"

definition create_room_with_bet ::
    "config \<Rightarrow> bot \<Rightarrow> int \<Rightarrow> real option \<Rightarrow> string \<Rightarrow> reply \<times> bot" where
  "create_room_with_bet cfg st uid parsed gt =
     (let (rep, writes) = create_room_with_bet_writes cfg st uid parsed gt
      in (rep, last (st # writes)))"

text \<open>
  \<open>join_room\<close> of main.py, up to the reserved stake (lines 399 to 422): the reply of a
  refusal or the joined room, and the state after each write, in program order. The
  variable \<open>room\<close> and the registry entry are one object, so after
  \<open>room_manager.join_room\<close> the room is read through the registry.
\<close>

definition join_room_writes :: "bot \<Rightarrow> int \<Rightarrow> string \<Rightarrow> (reply + room) \<times> bot list" where
  "join_room_writes st uid rid =
     (case get_room (rooms st) rid of
        None \<Rightarrow> (Inl RoomNotAvailable, [])
      | Some r \<Rightarrow>
          if status r \<noteq> ''waiting'' then (Inl RoomAlreadyTaken, [])
          else
            (let balance = get_balance (db st) uid
             in if balance < bet r then (Inl InsufficientFunds, [])
                else
                  (let (ok, m1) = join_room (rooms st) rid uid;
                       st1 = st\<lparr>rooms := m1\<rparr>;
                       r1 = (case get_room m1 rid of Some x \<Rightarrow> x | None \<Rightarrow> r)
                   in if ok then
                        (let st2 = st1\<lparr>db := snd (update_balance (db st1) uid (- bet r1))\<rparr>
                         in (Inr r1, [st1, st2]))
                      else (Inl JoinFailed, [st1]))))"

text \<open>
  The whole handler: after the stake is reserved the game starts. \<open>a\<close> and \<open>b\<close> are
  the dice that a dice room rolls.
\<close>

definition main_join_room :: "config \<Rightarrow> bot \<Rightarrow> int \<Rightarrow> string \<Rightarrow> int \<Rightarrow> int \<Rightarrow> reply \<times> bot" where
  "main_join_room cfg st uid rid a b =
     (let (res, writes) = join_room_writes st uid rid;
          st' = last (st # writes)
      in case res of
           Inl rep \<Rightarrow> (rep, st')
         | Inr r \<Rightarrow> start_multiplayer_game cfg st' r a b)"

subsection \<open>main.py: the rematch\<close>

text \<open>
  \<open>request_rematch\<close> up to the point where the new game is started (lines 729 to
  765, and 789 to 821 for a first request). \<open>uid\<close> is \<open>callback.from_user.id\<close>;
  \<open>gt\<close>, \<open>b\<close>, \<open>player1_id\<close> and \<open>player2_id\<close> are the parts of the callback
  data, which \<open>show_dice_result\<close> and \<open>show_coinflip_result\<close> build from the finished
  room. The result is the reply of a request that starts no game, or the room of an
  accepted rematch. \<open>create_room\<close> raising \<open>ValueError\<close> is not caught here. After a
  first request is stored the requester's name is read for the notification.
\<close>

definition rematch_pairing ::
    "bot \<Rightarrow> int \<Rightarrow> string \<Rightarrow> real \<Rightarrow> int \<Rightarrow> int \<Rightarrow> (reply + room) \<times> bot" where
  "rematch_pairing st uid gt b player1_id player2_id =
     (let opponent = (if uid = player1_id then player2_id else player1_id);
          balance = get_balance (db st) uid
      in if balance < b then (Inl InsufficientFunds, st)
         else
           (let pair_key = (min player1_id player2_id, max player1_id player2_id, gt, b)
            in case rematch_requests st pair_key of
                 Some existing_request \<Rightarrow>
                   if req_requester_id existing_request \<noteq> uid then
                     (let st1 = st\<lparr>rematch_requests := (rematch_requests st)(pair_key := None)\<rparr>;
                          (created, m1) =
                             create_room (rooms st1) (req_requester_id existing_request) gt b;
                          st2 = st1\<lparr>rooms := m1\<rparr>
                      in case created of
                           None \<Rightarrow> (Inl (Raised ValueError), st2)
                         | Some r \<Rightarrow>
                             (let (ok, m2) = join_room (rooms st2) (room_id r) uid;
                                  st3 = st2\<lparr>rooms := m2\<rparr>;
                                  r1 = (case get_room m2 (room_id r) of
                                          Some x \<Rightarrow> x | None \<Rightarrow> r)
                              in (Inr r1, st3)))
                   else (Inl RematchAlreadyRequested, st)
               | None \<Rightarrow>
                   (let st1 = st\<lparr>rematch_requests := (rematch_requests st)(pair_key \<mapsto>
                                  \<lparr>req_requester_id = uid, req_opponent_id = opponent,
                                   req_game_type = gt, req_bet = b\<rparr>)\<rparr>
                    in case get_user (db st1) uid of
                         None \<Rightarrow> (Inl (Raised TypeError), st1)
                       | Some u \<Rightarrow> (Inl RematchRequested, st1))))"

text \<open>The whole handler: an accepted rematch starts its game at once.\<close>

definition request_rematch ::
    "config \<Rightarrow> bot \<Rightarrow> int \<Rightarrow> string \<Rightarrow> real \<Rightarrow> int \<Rightarrow> int \<Rightarrow> int \<Rightarrow> int \<Rightarrow> reply \<times> bot" where
  "request_rematch cfg st uid gt b player1_id player2_id roll_a roll_b =
     (case rematch_pairing st uid gt b player1_id player2_id of
        (Inl rep, st') \<Rightarrow> (rep, st')
      | (Inr r, st') \<Rightarrow> start_multiplayer_game cfg st' r roll_a roll_b)"

subsection \<open>Rooms and registries that the code can build\<close>

text \<open>
  The rooms that exist at run time: built by one of the two constructors and changed
  only by the methods of their class.
\<close>

inductive reachable_room :: "room \<Rightarrow> bool" where
  new_dice: "reachable_room (DiceGame_init rid creator b)"
| new_coinflip: "reachable_room (CoinflipGame_init rid creator b)"
| after_join: "reachable_room r \<Longrightarrow> reachable_room (snd (MultiplayerGame_join r opponent))"
| after_choice:
    "reachable_room r \<Longrightarrow> game_type r = ''coinflip'' \<Longrightarrow>
     reachable_room (CoinflipGame_set_creator_choice r choice)"
| after_dice_play:
    "reachable_room r \<Longrightarrow> game_type r = ''dice'' \<Longrightarrow>
     reachable_room (snd (DiceGame_play r a b))"
| after_coinflip_play:
    "reachable_room r \<Longrightarrow> game_type r = ''coinflip'' \<Longrightarrow>
     reachable_room (snd (CoinflipGame_play r flip))"


subsection \<open>Example configuration and states\<close>

text \<open>
  A house fee of 5 percent, two registered users with a balance of 100 each, and the
  bot as it is after start-up. The worked examples below run on them.
\<close>

definition cfg5 :: config where
  "cfg5 = \<lparr>MIN_BET = 1, MAX_BET = 1000, HOUSE_FEE = 5\<rparr>"

definition two_users :: database where
  "two_users = snd (create_user (snd (create_user Map.empty 1 (Some ''ann'') 100))
                      2 (Some ''bob'') 100)"

definition bot0 :: bot where
  "bot0 = \<lparr>db = two_users, rooms = RoomManager_init, rematch_requests = Map.empty\<rparr>"

section \<open>Properties\<close>

subsection \<open>Helper lemmas\<close>

lemma store_room_same: "active_rooms m rid = Some r \<Longrightarrow> store_room m rid r = m"
  by (simp add: store_room_def map_upd_triv)

text \<open>A room that has left \<open>waiting\<close> has an opponent: only \<open>join\<close> leaves that state.\<close>

lemma reachable_room_opponent:
  "reachable_room r \<Longrightarrow> status r = ''waiting'' \<or> opponent_id r \<noteq> None"
  by (induction rule: reachable_room.induct)
     (auto simp: DiceGame_init_def CoinflipGame_init_def MultiplayerGame_init_def
        MultiplayerGame_join_def CoinflipGame_set_creator_choice_def DiceGame_play_def
        CoinflipGame_play_def Let_def split: option.splits if_splits)

text \<open>Balances after the calls of the store.\<close>

lemma get_balance_update_balance:
  "get_balance (snd (update_balance d x a)) u =
     get_balance d u + (if u = x \<and> d x \<noteq> None then a else 0)"
  by (auto simp: update_balance_def get_balance_def get_user_def Let_def split: option.splits)

lemma update_balance_None [simp]:
  "snd (update_balance d x a) u = None \<longleftrightarrow> d u = None"
  by (auto simp: update_balance_def Let_def split: option.splits)

lemma get_balance_add_game_to_history [simp]:
  "get_balance (add_game_to_history d x gt b w res) u = get_balance d u"
  by (auto simp: add_game_to_history_def get_balance_def get_user_def Let_def
      split: option.splits)

lemma add_game_to_history_None [simp]:
  "add_game_to_history d x gt b w res u = None \<longleftrightarrow> d u = None"
  by (auto simp: add_game_to_history_def Let_def split: option.splits)

lemma get_balance_add_game_to_history_opt [simp]:
  "get_balance (add_game_to_history_opt d x gt b w res) u = get_balance d u"
  by (simp add: add_game_to_history_opt_def split: option.splits)

text \<open>
  The balances after the settlement of a game with a winner are those after one call of
  \<open>update_balance\<close>, on the winner with the prize; after a draw they are those after
  two calls, on the creator and on the opponent with the stake.
\<close>

lemma settle_balance_win:
  "get_balance (settle cfg d r (Some w) False tag) u =
     get_balance (snd (update_balance d w (final_prize (bet r) (HOUSE_FEE cfg)))) u"
  by (simp add: settle_def Let_def update_balance_opt_def)

lemma settle_balance_draw:
  assumes "opponent_id r = Some opp"
  shows "get_balance (settle cfg d r w True tag) u =
           get_balance (snd (update_balance (snd (update_balance d (creator_id r) (bet r)))
                               opp (bet r))) u"
  using assms
  by (simp add: settle_def Let_def update_balance_opt_def)

text \<open>
  What the two game runs leave in the store: the settlement of the played room. The
  dice game is run by \<open>start_multiplayer_game\<close>, the coinflip by the creator's choice
  of a side.
\<close>

lemma dice_game_settles:
  assumes "db st (creator_id r) \<noteq> None" and "opponent_id r = Some opp"
    and "db st opp \<noteq> None" and "status r = ''playing''" and "game_type r = ''dice''"
    and "1 \<le> a \<and> a \<le> 6" and "1 \<le> b \<and> b \<le> 6"
  shows "fst (start_multiplayer_game cfg st r a b) = ResultShown"
    and "db (snd (start_multiplayer_game cfg st r a b)) =
           settle cfg (db st) (snd (DiceGame_play r a b))
             (if a > b then Some (creator_id r) else if b > a then Some opp else None)
             (a = b) ''dice_mp''"
proof -
  define w where "w = (if a > b then Some (creator_id r) else if b > a then Some opp else None)"
  define r1 where "r1 = r\<lparr>creator_result := Some (Roll a), opponent_result := Some (Roll b),
               winner_id := w, status := ''finished''\<rparr>"
  define st1 where "st1 = st\<lparr>rooms := store_room (rooms st) (room_id r) r1\<rparr>"
  obtain cu ou where cu: "db st (creator_id r) = Some cu" and ou: "db st opp = Some ou"
    using assms(1,3) by auto
  have draw: "(w = None) = (a = b)" by (auto simp: w_def)
  have "DiceGame_play r a b = (DiceDict a b w (w = None), r1)"
    using assms(2,4) by (simp add: DiceGame_play_def Let_def w_def r1_def)
  then have play: "DiceGame_play r a b = (DiceDict a b w (a = b), r1)"
    by (simp add: draw)
  have ok: "dice_emoji_ok a" "dice_emoji_ok b"
    using assms(6,7) by (simp_all add: dice_emoji_ok_def)
  have r1: "creator_id r1 = creator_id r" "opponent_id r1 = Some opp" "room_id r1 = room_id r"
    using assms(2) by (simp_all add: r1_def)
  have show_result: "show_dice_result cfg st1 r1 (DiceDict a b w (a = b)) =
      (ResultShown,
       st1\<lparr>db := settle cfg (db st) r1 w (a = b) ''dice_mp'',
            rooms := snd (delete_room (rooms st1) (room_id r))\<rparr>)"
    using ok cu ou
    by (simp add: show_dice_result_def r1 get_user_def get_user_opt_def Let_def st1_def)
  have run: "start_multiplayer_game cfg st r a b =
      (ResultShown,
       st1\<lparr>db := settle cfg (db st) r1 w (a = b) ''dice_mp'',
            rooms := snd (delete_room (rooms st1) (room_id r))\<rparr>)"
    using assms(5) cu ou assms(2)
    by (simp add: start_multiplayer_game_def animate_dice_game_def play
          get_user_def get_user_opt_def show_result [unfolded st1_def] st1_def)
  show "fst (start_multiplayer_game cfg st r a b) = ResultShown"
    by (simp add: run)
  show "db (snd (start_multiplayer_game cfg st r a b)) =
           settle cfg (db st) (snd (DiceGame_play r a b))
             (if a > b then Some (creator_id r) else if b > a then Some opp else None)
             (a = b) ''dice_mp''"
    by (simp add: run play w_def)
qed

lemma coinflip_game_settles:
  assumes "db st (creator_id r) \<noteq> None" and "opponent_id r = Some opp"
    and "db st opp \<noteq> None" and "status r = ''playing''" and "game_type r = ''coinflip''"
    and "get_room (rooms st) rid = Some r"
    and "choice = ''heads'' \<or> choice = ''tails''" and "flip = ''heads'' \<or> flip = ''tails''"
  shows "fst (coinflip_choice cfg st (creator_id r) rid choice flip) = ResultShown"
    and "\<exists>r2. bet r2 = bet r \<and>
           db (snd (coinflip_choice cfg st (creator_id r) rid choice flip)) =
             settle cfg (db st) r2 (Some (if choice = flip then creator_id r else opp))
               False ''coinflip_mp''"
proof -
  define w where "w = (if choice = flip then creator_id r else opp)"
  define oc where "oc = (if choice = ''heads'' then ''tails'' else ''heads'')"
  define r1 where "r1 = r\<lparr>creator_choice := Some choice\<rparr>"
  define r2 where "r2 = r1\<lparr>creator_result := Some (Side flip),
               opponent_result := Some (Side flip), winner_id := Some w, status := ''finished''\<rparr>"
  define st2 where "st2 = st\<lparr>rooms := store_room (store_room (rooms st) rid r1) rid r2\<rparr>"
  obtain cu ou where cu: "db st (creator_id r) = Some cu" and ou: "db st opp = Some ou"
    using assms(1,3) by auto
  have low: "lower choice = choice"
    using assms(7) by (auto simp: lower_def lower_char_def)
  have set: "CoinflipGame_set_creator_choice r choice = r1"
    by (simp add: CoinflipGame_set_creator_choice_def low r1_def)
  have play: "CoinflipGame_play r1 flip = (CoinDict flip choice oc (Some w) False, r2)"
    using assms(2,4,7,8)
    by (auto simp: CoinflipGame_play_def CoinflipGame_get_opponent_choice_def Let_def
          r1_def r2_def w_def oc_def)
  have ok: "choice_emoji_ok choice" "choice_emoji_ok flip" "choice_emoji_ok oc"
    using assms(7,8) by (auto simp: choice_emoji_ok_def oc_def)
  have r2: "creator_id r2 = creator_id r" "opponent_id r2 = Some opp" "room_id r2 = room_id r"
    "bet r2 = bet r"
    using assms(2) by (simp_all add: r2_def r1_def)
  have show_result: "show_coinflip_result cfg st2 r2 (CoinDict flip choice oc (Some w) False) =
      (ResultShown,
       st2\<lparr>db := settle cfg (db st) r2 (Some w) False ''coinflip_mp'',
            rooms := snd (delete_room (rooms st2) (room_id r))\<rparr>)"
    using ok cu ou
    by (simp add: show_coinflip_result_def r2 get_user_def get_user_opt_def Let_def st2_def)
  have run: "coinflip_choice cfg st (creator_id r) rid choice flip =
      (ResultShown,
       st2\<lparr>db := settle cfg (db st) r2 (Some w) False ''coinflip_mp'',
            rooms := snd (delete_room (rooms st2) (room_id r))\<rparr>)"
    using assms(5,6) ok
    by (simp add: coinflip_choice_def set play show_result [unfolded st2_def] st2_def)
  show "fst (coinflip_choice cfg st (creator_id r) rid choice flip) = ResultShown"
    by (simp add: run)
  show "\<exists>r2. bet r2 = bet r \<and>
           db (snd (coinflip_choice cfg st (creator_id r) rid choice flip)) =
             settle cfg (db st) r2 (Some (if choice = flip then creator_id r else opp))
               False ''coinflip_mp''"
    by (rule exI [of _ r2]) (simp add: run r2 w_def)
qed

text \<open>The prize on a stake of 10 and of 20 with a fee of 5 percent.\<close>

lemma final_prize_examples:
  "final_prize 10 5 = 19" "final_prize 20 5 = 38"
  by code_simp+

text \<open>The two example users.\<close>

lemma two_users_simps:
  "two_users 1 \<noteq> None" "two_users 2 \<noteq> None"
  "get_balance two_users 1 = 100" "get_balance two_users 2 = 100"
  by (simp_all add: two_users_def create_user_def get_balance_def get_user_def Let_def)

text \<open>Two changes of one room leave the second; a side of the coin is lower case.\<close>

lemma store_room_twice:
  "store_room (store_room m rid r) rid r' = store_room m rid r'"
  by (simp add: store_room_def)

lemma lower_side: "choice = ''heads'' \<or> choice = ''tails'' \<Longrightarrow> lower choice = choice"
  by (auto simp: lower_def lower_char_def)

text \<open>The first room of a fresh registry is \<open>ROOM1001\<close>.\<close>

lemma room_name_1001: "str_nat 1001 = ''1001''"
  by (simp add: str_nat.simps char_of_def bit_Suc_0_iff)

lemma create_room_first:
  "create_room RoomManager_init creator ''dice'' b =
     (Some (DiceGame_init ''ROOM1001'' creator b),
      \<lparr>active_rooms = [''ROOM1001'' \<mapsto> DiceGame_init ''ROOM1001'' creator b],
       room_counter = 1001\<rparr>)"
  by (simp add: create_room_def generate_room_id_def RoomManager_init_def Let_def room_name_1001)












subsection \<open>The dice resolver\<close>

text \<open>
  Claim C6. A dice room that is being played, with creator roll \<open>a\<close> and opponent roll
  \<open>b\<close>, both from 1 to 6: if \<open>a > b\<close> the winner is the creator, if \<open>b > a\<close> the
  winner is the opponent, and if \<open>a = b\<close> there is no winner and the result is a draw.
  The returned dict and the room's \<open>winner_id\<close> agree, and the room is finished.
\<close>

theorem dice_higher_roll_wins:
  assumes "reachable_room r" and "game_type r = ''dice''" and "status r = ''playing''"
    and "1 \<le> a \<and> a \<le> 6" and "1 \<le> b \<and> b \<le> 6"
  shows "\<exists>opp. opponent_id r = Some opp \<and>
           fst (DiceGame_play r a b) =
             DiceDict a b (if a > b then Some (creator_id r)
                           else if b > a then Some opp else None) (a = b) \<and>
           winner_id (snd (DiceGame_play r a b)) =
             (if a > b then Some (creator_id r) else if b > a then Some opp else None) \<and>
           status (snd (DiceGame_play r a b)) = ''finished''"
proof -
  from reachable_room_opponent [OF assms(1)] assms(3)
  obtain opp where opp: "opponent_id r = Some opp" by auto
  show ?thesis
    using opp assms(3) by (auto simp: DiceGame_play_def Let_def)
qed

theorem dice_higher_roll_wins_witness:
  "fst (DiceGame_play (snd (MultiplayerGame_join (DiceGame_init ''ROOM1001'' 1 10) 2)) 6 3)
     = DiceDict 6 3 (Some 1) False \<and>
   fst (DiceGame_play (snd (MultiplayerGame_join (DiceGame_init ''ROOM1001'' 1 10) 2)) 2 5)
     = DiceDict 2 5 (Some 2) False \<and>
   fst (DiceGame_play (snd (MultiplayerGame_join (DiceGame_init ''ROOM1001'' 1 10) 2)) 4 4)
     = DiceDict 4 4 None True"
proof -
  let ?r = "snd (MultiplayerGame_join (DiceGame_init ''ROOM1001'' 1 10) 2)"
  have reach: "reachable_room ?r"
    by (rule after_join) (rule new_dice)
  have gt: "game_type ?r = ''dice''" and pl: "status ?r = ''playing''"
    and opp: "opponent_id ?r = Some 2" and cr: "creator_id ?r = 1"
    by (simp_all add: MultiplayerGame_join_def DiceGame_init_def MultiplayerGame_init_def)
  from dice_higher_roll_wins [OF reach gt pl, of 6 3]
       dice_higher_roll_wins [OF reach gt pl, of 2 5]
       dice_higher_roll_wins [OF reach gt pl, of 4 4]
  show ?thesis by (simp add: opp cr)
qed

subsection \<open>The coinflip resolver\<close>

text \<open>
  Claim C5. A coinflip room that is being played and whose creator has chosen
  \<open>heads\<close> or \<open>tails\<close>: whatever the flip, \<open>play\<close> returns a winner and
  \<open>is_draw\<close> false. The winner is the creator when the flip is the creator's side and
  the opponent otherwise; the branch that assigns no winner is not taken.
\<close>

theorem coinflip_always_has_winner:
  assumes "reachable_room r" and "game_type r = ''coinflip''" and "status r = ''playing''"
    and "creator_choice r = Some ''heads'' \<or> creator_choice r = Some ''tails''"
    and "flip = ''heads'' \<or> flip = ''tails''"
  shows "\<exists>w cc oc. fst (CoinflipGame_play r flip) = CoinDict flip cc oc (Some w) False \<and>
           creator_choice r = Some cc \<and>
           (cc = flip \<longrightarrow> w = creator_id r) \<and>
           (cc \<noteq> flip \<longrightarrow> oc = flip \<and> opponent_id r = Some w) \<and>
           winner_id (snd (CoinflipGame_play r flip)) = Some w \<and>
           status (snd (CoinflipGame_play r flip)) = ''finished''"
proof -
  from reachable_room_opponent [OF assms(1)] assms(3)
  obtain opp where opp: "opponent_id r = Some opp" by auto
  from assms(4,5) consider
      (hh) "creator_choice r = Some ''heads''" "flip = ''heads''"
    | (ht) "creator_choice r = Some ''heads''" "flip = ''tails''"
    | (th) "creator_choice r = Some ''tails''" "flip = ''heads''"
    | (tt) "creator_choice r = Some ''tails''" "flip = ''tails''"
    by blast
  then show ?thesis
  proof cases
    case hh
    with opp assms(3) show ?thesis
      by (simp add: CoinflipGame_play_def CoinflipGame_get_opponent_choice_def Let_def)
  next
    case ht
    with opp assms(3) show ?thesis
      by (simp add: CoinflipGame_play_def CoinflipGame_get_opponent_choice_def Let_def)
  next
    case th
    with opp assms(3) show ?thesis
      by (simp add: CoinflipGame_play_def CoinflipGame_get_opponent_choice_def Let_def)
  next
    case tt
    with opp assms(3) show ?thesis
      by (simp add: CoinflipGame_play_def CoinflipGame_get_opponent_choice_def Let_def)
  qed
qed

theorem coinflip_always_has_winner_witness:
  "fst (CoinflipGame_play
          (CoinflipGame_set_creator_choice
             (snd (MultiplayerGame_join (CoinflipGame_init ''ROOM1001'' 1 20) 2)) ''heads'')
          ''tails'')
     = CoinDict ''tails'' ''heads'' ''tails'' (Some 2) False"
proof -
  let ?j = "snd (MultiplayerGame_join (CoinflipGame_init ''ROOM1001'' 1 20) 2)"
  let ?r = "CoinflipGame_set_creator_choice ?j ''heads''"
  have gt0: "game_type ?j = ''coinflip''"
    by (simp add: MultiplayerGame_join_def CoinflipGame_init_def MultiplayerGame_init_def)
  have reach: "reachable_room ?r"
    by (rule after_choice [OF after_join [OF new_coinflip] gt0])
  have gt: "game_type ?r = ''coinflip''" and pl: "status ?r = ''playing''"
    and opp: "opponent_id ?r = Some 2" and cr: "creator_id ?r = 1"
    by (simp_all add: CoinflipGame_set_creator_choice_def MultiplayerGame_join_def
          CoinflipGame_init_def MultiplayerGame_init_def)
  have ch: "creator_choice ?r = Some ''heads''"
    by (simp add: CoinflipGame_set_creator_choice_def lower_def lower_char_def)
  from coinflip_always_has_winner [OF reach gt pl, of "''tails''"] ch opp
  show ?thesis by auto
qed

subsection \<open>State guards of join and play\<close>

text \<open>
  Claim C4. On a room whose status is not \<open>waiting\<close>, \<open>join\<close> returns false and
  changes nothing, on the room itself and through the registry. On a room whose status
  is not \<open>playing\<close>, \<open>play\<close> returns the error dict and changes nothing. A play that
  returned a result has set the status to \<open>finished\<close>, so a second call on the same
  room returns the error dict; handed that dict, \<open>show_dice_result\<close> and
  \<open>show_coinflip_result\<close> raise before any balance is touched, so there is no second
  settlement.
\<close>

theorem state_guards:
  "(status r \<noteq> ''waiting'' \<longrightarrow> MultiplayerGame_join r opponent = (False, r)) \<and>
   (status r \<noteq> ''waiting'' \<longrightarrow> active_rooms m rid = Some r \<longrightarrow>
      join_room m rid opponent = (False, m)) \<and>
   (status r \<noteq> ''playing'' \<longrightarrow>
      DiceGame_play r a b = (ErrorDict ''Game is not ready'', r) \<and>
      CoinflipGame_play r flip = (ErrorDict ''Game is not ready'', r)) \<and>
   ((\<forall>e. fst (DiceGame_play r a b) \<noteq> ErrorDict e) \<longrightarrow>
      status (snd (DiceGame_play r a b)) = ''finished'' \<and>
      DiceGame_play (snd (DiceGame_play r a b)) a' b' =
        (ErrorDict ''Game is not ready'', snd (DiceGame_play r a b))) \<and>
   ((\<forall>e. fst (CoinflipGame_play r flip) \<noteq> ErrorDict e) \<longrightarrow>
      status (snd (CoinflipGame_play r flip)) = ''finished'' \<and>
      CoinflipGame_play (snd (CoinflipGame_play r flip)) flip' =
        (ErrorDict ''Game is not ready'', snd (CoinflipGame_play r flip))) \<and>
   snd (show_dice_result cfg st r (ErrorDict e)) = st \<and>
   (\<exists>x. fst (show_dice_result cfg st r (ErrorDict e)) = Raised x) \<and>
   snd (show_coinflip_result cfg st r (ErrorDict e)) = st \<and>
   (\<exists>x. fst (show_coinflip_result cfg st r (ErrorDict e)) = Raised x)"
proof (intro conjI impI)
  show "MultiplayerGame_join r opponent = (False, r)" if "status r \<noteq> ''waiting''"
    using that by (simp add: MultiplayerGame_join_def)
  show "join_room m rid opponent = (False, m)"
    if "status r \<noteq> ''waiting''" "active_rooms m rid = Some r"
    using that by (simp add: join_room_def get_room_def MultiplayerGame_join_def store_room_same)
  show "DiceGame_play r a b = (ErrorDict ''Game is not ready'', r)" if "status r \<noteq> ''playing''"
    using that by (simp add: DiceGame_play_def)
  show "CoinflipGame_play r flip = (ErrorDict ''Game is not ready'', r)" if "status r \<noteq> ''playing''"
    using that by (simp add: CoinflipGame_play_def)
  show "status (snd (DiceGame_play r a b)) = ''finished''"
    if "\<forall>e. fst (DiceGame_play r a b) \<noteq> ErrorDict e"
    using that by (simp add: DiceGame_play_def Let_def split: if_splits)
  show "DiceGame_play (snd (DiceGame_play r a b)) a' b' =
        (ErrorDict ''Game is not ready'', snd (DiceGame_play r a b))"
    if "\<forall>e. fst (DiceGame_play r a b) \<noteq> ErrorDict e"
    using that by (simp add: DiceGame_play_def Let_def split: if_splits)
  show "status (snd (CoinflipGame_play r flip)) = ''finished''"
    if "\<forall>e. fst (CoinflipGame_play r flip) \<noteq> ErrorDict e"
    using that by (simp add: CoinflipGame_play_def Let_def split: if_splits option.splits)
  show "CoinflipGame_play (snd (CoinflipGame_play r flip)) flip' =
        (ErrorDict ''Game is not ready'', snd (CoinflipGame_play r flip))"
    if "\<forall>e. fst (CoinflipGame_play r flip) \<noteq> ErrorDict e"
    using that by (simp add: CoinflipGame_play_def Let_def split: if_splits option.splits)
  show "snd (show_dice_result cfg st r (ErrorDict e)) = st"
    by (simp add: show_dice_result_def split: option.splits)
  show "\<exists>x. fst (show_dice_result cfg st r (ErrorDict e)) = Raised x"
    by (simp add: show_dice_result_def split: option.splits)
  show "snd (show_coinflip_result cfg st r (ErrorDict e)) = st"
    by (simp add: show_coinflip_result_def split: option.splits)
  show "\<exists>x. fst (show_coinflip_result cfg st r (ErrorDict e)) = Raised x"
    by (simp add: show_coinflip_result_def split: option.splits)
qed

theorem state_guards_witness:
  "MultiplayerGame_join
     (snd (DiceGame_play (snd (MultiplayerGame_join (DiceGame_init ''ROOM1001'' 1 10) 2)) 6 3)) 3
   = (False, snd (DiceGame_play (snd (MultiplayerGame_join (DiceGame_init ''ROOM1001'' 1 10) 2)) 6 3)) \<and>
   DiceGame_play
     (snd (DiceGame_play (snd (MultiplayerGame_join (DiceGame_init ''ROOM1001'' 1 10) 2)) 6 3)) 5 1
   = (ErrorDict ''Game is not ready'',
      snd (DiceGame_play (snd (MultiplayerGame_join (DiceGame_init ''ROOM1001'' 1 10) 2)) 6 3)) \<and>
   DiceGame_play (DiceGame_init ''ROOM1001'' 1 10) 5 1
   = (ErrorDict ''Game is not ready'', DiceGame_init ''ROOM1001'' 1 10)"
proof -
  let ?p = "snd (MultiplayerGame_join (DiceGame_init ''ROOM1001'' 1 10) 2)"
  let ?f = "snd (DiceGame_play ?p 6 3)"
  have played: "\<forall>e. fst (DiceGame_play ?p 6 3) \<noteq> ErrorDict e"
    by (simp add: DiceGame_play_def MultiplayerGame_join_def DiceGame_init_def
          MultiplayerGame_init_def Let_def)
  have fin: "status ?f \<noteq> ''waiting''"
    by (simp add: DiceGame_play_def MultiplayerGame_join_def DiceGame_init_def
          MultiplayerGame_init_def Let_def)
  have wait: "status (DiceGame_init ''ROOM1001'' 1 10) \<noteq> ''playing''"
    by (simp add: DiceGame_init_def MultiplayerGame_init_def)
  from state_guards [of ?f 3] fin
  have 1: "MultiplayerGame_join ?f 3 = (False, ?f)" by blast
  from state_guards [of ?p _ _ _ 6 3 _ 5 1] played
  have 2: "DiceGame_play ?f 5 1 = (ErrorDict ''Game is not ready'', ?f)" by blast
  from state_guards [of "DiceGame_init ''ROOM1001'' 1 10" _ _ _ 5 1] wait
  have 3: "DiceGame_play (DiceGame_init ''ROOM1001'' 1 10) 5 1
           = (ErrorDict ''Game is not ready'', DiceGame_init ''ROOM1001'' 1 10)" by blast
  from 1 2 3 show ?thesis by blast
qed

subsection \<open>Joining one's own room\<close>

text \<open>
  Claim C7, as stated, fails: \<open>MultiplayerGame.join\<close> has no test of the joining
  id. Called directly on a waiting room with the creator's own id it returns true, and
  the room is then played by its creator against themselves.
\<close>

theorem room_join_accepts_creator_counterexample:
  "status (DiceGame_init ''ROOM1001'' 7 10) = ''waiting'' \<and>
   creator_id (DiceGame_init ''ROOM1001'' 7 10) = 7 \<and>
   fst (MultiplayerGame_join (DiceGame_init ''ROOM1001'' 7 10) 7) = True \<and>
   status (snd (MultiplayerGame_join (DiceGame_init ''ROOM1001'' 7 10) 7)) = ''playing'' \<and>
   opponent_id (snd (MultiplayerGame_join (DiceGame_init ''ROOM1001'' 7 10) 7)) = Some 7"
  by (simp add: MultiplayerGame_join_def DiceGame_init_def MultiplayerGame_init_def)

text \<open>
  Claim C7, amended. The test for a self-join is in the registry:
  \<open>RoomManager.join_room\<close> with the creator's id returns false and leaves the registry,
  hence the room, unchanged, whatever the status of the room. \<open>MultiplayerGame.join\<close>
  does not look at the id: on a waiting room it accepts the creator's id like any other.
\<close>

theorem self_join_refused_by_registry:
  "(active_rooms m rid = Some r \<longrightarrow> join_room m rid (creator_id r) = (False, m)) \<and>
   (status r = ''waiting'' \<longrightarrow>
      MultiplayerGame_join r (creator_id r) =
        (True, r\<lparr>opponent_id := Some (creator_id r), status := ''playing''\<rparr>))"
  by (simp add: join_room_def get_room_def MultiplayerGame_join_def)

theorem self_join_refused_by_registry_witness:
  "join_room (snd (create_room RoomManager_init 7 ''dice'' 10)) ''ROOM1001'' 7
     = (False, snd (create_room RoomManager_init 7 ''dice'' 10)) \<and>
   active_rooms (snd (create_room RoomManager_init 7 ''dice'' 10)) ''ROOM1001''
     = Some (DiceGame_init ''ROOM1001'' 7 10) \<and>
   MultiplayerGame_join (DiceGame_init ''ROOM1001'' 7 10) 7
     = (True, (DiceGame_init ''ROOM1001'' 7 10)\<lparr>opponent_id := Some 7, status := ''playing''\<rparr>)"
proof -
  let ?m = "snd (create_room RoomManager_init 7 ''dice'' 10)"
  let ?d = "DiceGame_init ''ROOM1001'' 7 10"
  have name: "str_nat 1001 = ''1001''" by (simp add: str_nat.simps char_of_def bit_Suc_0_iff)
  have reg: "active_rooms ?m ''ROOM1001'' = Some ?d"
    by (simp add: create_room_def generate_room_id_def RoomManager_init_def Let_def name)
  have cr: "creator_id ?d = 7" and st: "status ?d = ''waiting''"
    by (simp_all add: DiceGame_init_def MultiplayerGame_init_def)
  from self_join_refused_by_registry [of ?m "''ROOM1001''" ?d] reg cr st
  show ?thesis by simp
qed

subsection \<open>The balance store\<close>



subsection \<open>Settlement\<close>

text \<open>
  Claim C1, as stated, fails on the amount. The handlers credit
  \<open>full_prize - full_prize * (HOUSE_FEE / 100)\<close> with \<open>full_prize = bet * 2\<close>, each
  operation rounded as a float, and that is not always \<open>2 * s * (1 - f / 100)\<close>. For
  the stake that the text \<open>1.1\<close> denotes and a fee of 5 the credit is
  2.0900000000000003 (4706261610602169 over 2 to the 51): it is neither the exact value
  of \<open>2 * s * (1 - f / 100)\<close> nor that expression computed in floats, which is 2.09
  (588282701325271 over 2 to the 48). A dice game with that stake, won by the creator,
  leaves the balances of one call of \<open>update_balance\<close> with the first amount.
\<close>

theorem settlement_prize_rounding_counterexample:
  "round_double (11 / 10) = 2476979795053773 / 2251799813685248 \<and>
   final_prize (round_double (11 / 10)) 5 = 4706261610602169 / 2251799813685248 \<and>
   2 * round_double (11 / 10) * (1 - 5 / 100) = 47062616106021687 / 22517998136852480 \<and>
   double_mul (double_mul 2 (round_double (11 / 10))) (double_sub 1 (double_div 5 100))
     = 588282701325271 / 281474976710656 \<and>
   final_prize (round_double (11 / 10)) 5 \<noteq> 2 * round_double (11 / 10) * (1 - 5 / 100) \<and>
   final_prize (round_double (11 / 10)) 5 \<noteq>
     double_mul (double_mul 2 (round_double (11 / 10))) (double_sub 1 (double_div 5 100)) \<and>
   get_balance (db (snd (start_multiplayer_game cfg5 bot0
      (snd (MultiplayerGame_join (DiceGame_init ''ROOM1001'' 1 (round_double (11 / 10))) 2))
      6 3))) 1
     = get_balance (snd (update_balance two_users 1
                            (4706261610602169 / 2251799813685248))) 1"
proof -
  let ?r = "snd (MultiplayerGame_join
                  (DiceGame_init ''ROOM1001'' 1 (2476979795053773 / 2251799813685248)) 2)"
  have s: "round_double (11 / 10) = 2476979795053773 / 2251799813685248"
    by code_simp
  have p: "final_prize (2476979795053773 / 2251799813685248) 5 =
             4706261610602169 / 2251799813685248"
    by code_simp
  have e: "2 * (2476979795053773 / 2251799813685248) * (1 - 5 / 100) =
             (47062616106021687 / 22517998136852480 :: real)"
    by simp
  have f: "double_mul (double_mul 2 (2476979795053773 / 2251799813685248))
             (double_sub 1 (double_div 5 100)) = 588282701325271 / 281474976710656"
    by code_simp
  have ne1: "(4706261610602169 / 2251799813685248 :: real) \<noteq>
             47062616106021687 / 22517998136852480"
    by simp
  have ne2: "(4706261610602169 / 2251799813685248 :: real) \<noteq>
             588282701325271 / 281474976710656"
    by simp
  have r: "creator_id ?r = 1" "opponent_id ?r = Some 2" "status ?r = ''playing''"
    "game_type ?r = ''dice''" "bet ?r = 2476979795053773 / 2251799813685248"
    by (simp_all add: MultiplayerGame_join_def DiceGame_init_def MultiplayerGame_init_def)
  have u: "db bot0 (creator_id ?r) \<noteq> None" "db bot0 2 \<noteq> None"
    using two_users_simps(1,2) by (simp_all add: bot0_def r)
  have b: "bet (snd (DiceGame_play ?r 6 3)) = 2476979795053773 / 2251799813685248"
    by (simp add: DiceGame_play_def Let_def r)
  have g: "db (snd (start_multiplayer_game cfg5 bot0 ?r 6 3)) =
             settle cfg5 two_users (snd (DiceGame_play ?r 6 3)) (Some 1) False ''dice_mp''"
    using dice_game_settles(2) [OF u(1) r(2) u(2) r(3) r(4), of 6 3 cfg5]
    by (simp add: r bot0_def)
  have "get_balance (db (snd (start_multiplayer_game cfg5 bot0 ?r 6 3))) 1 =
          get_balance (snd (update_balance two_users 1
                              (4706261610602169 / 2251799813685248))) 1"
    unfolding g settle_balance_win by (simp add: b cfg5_def p)
  then show ?thesis
    using p e f ne1 ne2 by (simp add: s)
qed

text \<open>
  Claim C1, amended. A game between two registered users, played to its end with stake
  \<open>s = bet r\<close> and house fee \<open>f = HOUSE_FEE cfg\<close> percent. When there is a winner,
  the balances afterwards are those after exactly one call of \<open>update_balance\<close>, on the
  winner, with the amount \<open>final_prize s f\<close>, which is
  \<open>full_prize - full_prize * (f / 100)\<close> for \<open>full_prize = s * 2\<close> in float
  operations; no other balance changes, so the loser is credited nothing. When the dice
  are equal, the balances are those after one call on the creator and one on the
  opponent, each with the stake \<open>s\<close> and no fee, and no other balance changes. A
  coinflip with a side chosen always has a winner.
\<close>

theorem settlement_credits:
  assumes "db st (creator_id r) \<noteq> None" and "opponent_id r = Some opp"
    and "db st opp \<noteq> None" and "status r = ''playing''"
  shows
    "(game_type r = ''dice'' \<and> 1 \<le> a \<and> a \<le> 6 \<and> 1 \<le> b \<and> b \<le> 6 \<longrightarrow>
        fst (start_multiplayer_game cfg st r a b) = ResultShown \<and>
        (\<forall>u. get_balance (db (snd (start_multiplayer_game cfg st r a b))) u =
               get_balance
                 (if a > b then
                    snd (update_balance (db st) (creator_id r)
                           (final_prize (bet r) (HOUSE_FEE cfg)))
                  else if b > a then
                    snd (update_balance (db st) opp (final_prize (bet r) (HOUSE_FEE cfg)))
                  else
                    snd (update_balance (snd (update_balance (db st) (creator_id r) (bet r)))
                           opp (bet r))) u) \<and>
        (\<forall>u. u \<noteq> (if a > b then creator_id r else opp) \<and> a \<noteq> b \<longrightarrow>
               get_balance (db (snd (start_multiplayer_game cfg st r a b))) u =
               get_balance (db st) u) \<and>
        (\<forall>u. u \<noteq> creator_id r \<and> u \<noteq> opp \<longrightarrow>
               get_balance (db (snd (start_multiplayer_game cfg st r a b))) u =
               get_balance (db st) u)) \<and>
     (game_type r = ''coinflip'' \<and> get_room (rooms st) rid = Some r \<and>
      (choice = ''heads'' \<or> choice = ''tails'') \<and> (flip = ''heads'' \<or> flip = ''tails'') \<longrightarrow>
        fst (coinflip_choice cfg st (creator_id r) rid choice flip) = ResultShown \<and>
        (\<forall>u. get_balance (db (snd (coinflip_choice cfg st (creator_id r) rid choice flip))) u =
               get_balance
                 (snd (update_balance (db st) (if choice = flip then creator_id r else opp)
                         (final_prize (bet r) (HOUSE_FEE cfg)))) u) \<and>
        (\<forall>u. u \<noteq> (if choice = flip then creator_id r else opp) \<longrightarrow>
               get_balance (db (snd (coinflip_choice cfg st (creator_id r) rid choice flip))) u =
               get_balance (db st) u)) \<and>
     final_prize (bet r) (HOUSE_FEE cfg) =
       double_sub (double_mul (bet r) 2)
         (double_mul (double_mul (bet r) 2) (double_div (HOUSE_FEE cfg) 100))"
proof (intro conjI impI)
  assume g: "game_type r = ''dice'' \<and> 1 \<le> a \<and> a \<le> 6 \<and> 1 \<le> b \<and> b \<le> 6"
  have ra: "1 \<le> a \<and> a \<le> 6" and rb: "1 \<le> b \<and> b \<le> 6" and gt: "game_type r = ''dice''"
    using g by simp_all
  have bet1: "bet (snd (DiceGame_play r x y)) = bet r"
    "creator_id (snd (DiceGame_play r x y)) = creator_id r" for x y
    by (simp_all add: DiceGame_play_def Let_def)
  have opp1: "opponent_id (snd (DiceGame_play r a b)) = Some opp"
    using assms(2) by (simp add: DiceGame_play_def Let_def)
  note fin = dice_game_settles(2) [OF assms(1,2,3,4) gt ra rb, of cfg]
  show "fst (start_multiplayer_game cfg st r a b) = ResultShown"
    by (rule dice_game_settles(1) [OF assms(1,2,3,4) gt ra rb])
  have bal: "get_balance (db (snd (start_multiplayer_game cfg st r a b))) u =
               get_balance
                 (if a > b then
                    snd (update_balance (db st) (creator_id r)
                           (final_prize (bet r) (HOUSE_FEE cfg)))
                  else if b > a then
                    snd (update_balance (db st) opp (final_prize (bet r) (HOUSE_FEE cfg)))
                  else
                    snd (update_balance (snd (update_balance (db st) (creator_id r) (bet r)))
                           opp (bet r))) u" for u
  proof -
    consider (c) "a > b" | (o) "\<not> a > b" "b > a" | (d) "\<not> a > b" "\<not> b > a" by linarith
    then show ?thesis
    proof cases
      case c
      then show ?thesis
        unfolding fin by (simp add: settle_balance_win bet1)
    next
      case o
      then show ?thesis
        unfolding fin by (simp add: settle_balance_win bet1)
    next
      case d
      then have eq: "a = b" by simp
      show ?thesis
        unfolding fin using d settle_balance_draw [OF opp1]
        by (simp add: eq bet1)
    qed
  qed
  show "\<forall>u. get_balance (db (snd (start_multiplayer_game cfg st r a b))) u =
               get_balance
                 (if a > b then
                    snd (update_balance (db st) (creator_id r)
                           (final_prize (bet r) (HOUSE_FEE cfg)))
                  else if b > a then
                    snd (update_balance (db st) opp (final_prize (bet r) (HOUSE_FEE cfg)))
                  else
                    snd (update_balance (snd (update_balance (db st) (creator_id r) (bet r)))
                           opp (bet r))) u"
    using bal by blast
  show "\<forall>u. u \<noteq> (if a > b then creator_id r else opp) \<and> a \<noteq> b \<longrightarrow>
               get_balance (db (snd (start_multiplayer_game cfg st r a b))) u =
               get_balance (db st) u"
    by (auto simp: bal get_balance_update_balance)
  show "\<forall>u. u \<noteq> creator_id r \<and> u \<noteq> opp \<longrightarrow>
               get_balance (db (snd (start_multiplayer_game cfg st r a b))) u =
               get_balance (db st) u"
    by (auto simp: bal get_balance_update_balance)
next
  assume g: "game_type r = ''coinflip'' \<and> get_room (rooms st) rid = Some r \<and>
      (choice = ''heads'' \<or> choice = ''tails'') \<and> (flip = ''heads'' \<or> flip = ''tails'')"
  have gt: "game_type r = ''coinflip''" and reg: "get_room (rooms st) rid = Some r"
    and ch: "choice = ''heads'' \<or> choice = ''tails''" and fl: "flip = ''heads'' \<or> flip = ''tails''"
    using g by simp_all
  show "fst (coinflip_choice cfg st (creator_id r) rid choice flip) = ResultShown"
    by (rule coinflip_game_settles(1) [OF assms(1,2,3,4) gt reg ch fl])
  from coinflip_game_settles(2) [OF assms(1,2,3,4) gt reg ch fl, of cfg]
  obtain r2 where r2: "bet r2 = bet r"
    and fin: "db (snd (coinflip_choice cfg st (creator_id r) rid choice flip)) =
             settle cfg (db st) r2 (Some (if choice = flip then creator_id r else opp))
               False ''coinflip_mp''"
    by blast
  have bal: "get_balance (db (snd (coinflip_choice cfg st (creator_id r) rid choice flip))) u =
               get_balance
                 (snd (update_balance (db st) (if choice = flip then creator_id r else opp)
                         (final_prize (bet r) (HOUSE_FEE cfg)))) u" for u
    unfolding fin by (simp add: settle_balance_win r2)
  show "\<forall>u. get_balance (db (snd (coinflip_choice cfg st (creator_id r) rid choice flip))) u =
               get_balance
                 (snd (update_balance (db st) (if choice = flip then creator_id r else opp)
                         (final_prize (bet r) (HOUSE_FEE cfg)))) u"
    using bal by blast
  show "\<forall>u. u \<noteq> (if choice = flip then creator_id r else opp) \<longrightarrow>
               get_balance (db (snd (coinflip_choice cfg st (creator_id r) rid choice flip))) u =
               get_balance (db st) u"
    by (auto simp: bal get_balance_update_balance)
next
  show "final_prize (bet r) (HOUSE_FEE cfg) =
       double_sub (double_mul (bet r) 2)
         (double_mul (double_mul (bet r) 2) (double_div (HOUSE_FEE cfg) 100))"
    by (simp add: final_prize_def Let_def)
qed

theorem settlement_credits_witness:
  "get_balance (db (snd (start_multiplayer_game cfg5 bot0
      (snd (MultiplayerGame_join (DiceGame_init ''ROOM1001'' 1 10) 2)) 6 3))) 1 = 119 \<and>
   get_balance (db (snd (start_multiplayer_game cfg5 bot0
      (snd (MultiplayerGame_join (DiceGame_init ''ROOM1001'' 1 10) 2)) 6 3))) 2 = 100 \<and>
   get_balance (db (snd (start_multiplayer_game cfg5 bot0
      (snd (MultiplayerGame_join (DiceGame_init ''ROOM1001'' 1 10) 2)) 4 4))) 1 = 110 \<and>
   get_balance (db (snd (start_multiplayer_game cfg5 bot0
      (snd (MultiplayerGame_join (DiceGame_init ''ROOM1001'' 1 10) 2)) 4 4))) 2 = 110 \<and>
   get_balance (db (snd (coinflip_choice cfg5
      (bot0\<lparr>rooms := store_room RoomManager_init ''ROOM1001''
                 (snd (MultiplayerGame_join (CoinflipGame_init ''ROOM1001'' 1 20) 2))\<rparr>)
      1 ''ROOM1001'' ''heads'' ''tails''))) 2 = 138 \<and>
   get_balance (db (snd (coinflip_choice cfg5
      (bot0\<lparr>rooms := store_room RoomManager_init ''ROOM1001''
                 (snd (MultiplayerGame_join (CoinflipGame_init ''ROOM1001'' 1 20) 2))\<rparr>)
      1 ''ROOM1001'' ''heads'' ''tails''))) 1 = 100"
proof -
  let ?d = "snd (MultiplayerGame_join (DiceGame_init ''ROOM1001'' 1 10) 2)"
  let ?c = "snd (MultiplayerGame_join (CoinflipGame_init ''ROOM1001'' 1 20) 2)"
  let ?s = "bot0\<lparr>rooms := store_room RoomManager_init ''ROOM1001'' ?c\<rparr>"
  have d: "creator_id ?d = 1" "opponent_id ?d = Some 2" "status ?d = ''playing''"
    "game_type ?d = ''dice''" "bet ?d = 10"
    by (simp_all add: MultiplayerGame_join_def DiceGame_init_def MultiplayerGame_init_def)
  have c: "creator_id ?c = 1" "opponent_id ?c = Some 2" "status ?c = ''playing''"
    "game_type ?c = ''coinflip''" "bet ?c = 20"
    by (simp_all add: MultiplayerGame_join_def CoinflipGame_init_def MultiplayerGame_init_def)
  have reg: "get_room (rooms ?s) ''ROOM1001'' = Some ?c"
    by (simp add: get_room_def store_room_def)
  have u: "db bot0 = two_users" "db ?s = two_users" "HOUSE_FEE cfg5 = 5"
    by (simp_all add: bot0_def cfg5_def)
  have dice: "\<And>a b. 1 \<le> a \<and> a \<le> 6 \<and> 1 \<le> b \<and> b \<le> 6 \<Longrightarrow>
     (\<forall>u. get_balance (db (snd (start_multiplayer_game cfg5 bot0 ?d a b))) u =
               get_balance
                 (if a > b then snd (update_balance two_users 1 19)
                  else if b > a then snd (update_balance two_users 2 19)
                  else snd (update_balance (snd (update_balance two_users 1 10)) 2 10)) u)"
    using settlement_credits [where st = bot0 and r = ?d and opp = 2 and cfg = cfg5]
      two_users_simps(1,2)
    by (simp add: d u final_prize_examples)
  have coin: "\<forall>u. get_balance (db (snd (coinflip_choice cfg5 ?s 1 ''ROOM1001'' ''heads'' ''tails''))) u =
               get_balance (snd (update_balance two_users 2 38)) u"
    using settlement_credits [where st = ?s and r = ?c and opp = 2 and cfg = cfg5
        and rid = "''ROOM1001''" and choice = "''heads''" and flip = "''tails''"]
      two_users_simps(1,2) reg
    by (simp add: c u final_prize_examples)
  from dice [of 6 3] dice [of 4 4] coin show ?thesis
    by (simp add: two_users_simps get_balance_update_balance)
qed

subsection \<open>The creator's choice of a side\<close>

text \<open>
  Claim C8, as stated, fails: \<open>set_creator_choice\<close> tests neither the status nor an
  earlier choice. On a waiting room it stores the choice, and a second call replaces the
  first choice. Through the handler, the creator of a room that is still waiting gets
  the choice stored in the registry as well.
\<close>

theorem creator_choice_unguarded_counterexample:
  "status (CoinflipGame_init ''ROOM1001'' 1 20) = ''waiting'' \<and>
   creator_choice (CoinflipGame_set_creator_choice (CoinflipGame_init ''ROOM1001'' 1 20) ''heads'')
     = Some ''heads'' \<and>
   creator_choice (CoinflipGame_set_creator_choice
       (CoinflipGame_set_creator_choice (CoinflipGame_init ''ROOM1001'' 1 20) ''heads'') ''tails'')
     = Some ''tails'' \<and>
   get_room (rooms (snd (coinflip_choice cfg5
       (bot0\<lparr>rooms := store_room RoomManager_init ''ROOM1001''
                  (CoinflipGame_init ''ROOM1001'' 1 20)\<rparr>)
       1 ''ROOM1001'' ''heads'' ''tails''))) ''ROOM1001''
     = Some ((CoinflipGame_init ''ROOM1001'' 1 20)\<lparr>creator_choice := Some ''heads''\<rparr>)"
proof -
  let ?r = "CoinflipGame_init ''ROOM1001'' 1 20"
  let ?s = "bot0\<lparr>rooms := store_room RoomManager_init ''ROOM1001'' ?r\<rparr>"
  have l: "lower ''heads'' = ''heads''" "lower ''tails'' = ''tails''"
    by (simp_all add: lower_side)
  have 1: "status ?r = ''waiting''"
    by (simp add: CoinflipGame_init_def MultiplayerGame_init_def)
  have 2: "creator_choice (CoinflipGame_set_creator_choice ?r ''heads'') = Some ''heads''"
    by (simp add: CoinflipGame_set_creator_choice_def l)
  have 3: "creator_choice (CoinflipGame_set_creator_choice
       (CoinflipGame_set_creator_choice ?r ''heads'') ''tails'') = Some ''tails''"
    by (simp add: CoinflipGame_set_creator_choice_def l)
  have 4: "get_room (rooms (snd (coinflip_choice cfg5 ?s 1 ''ROOM1001'' ''heads'' ''tails'')))
             ''ROOM1001'' = Some (?r\<lparr>creator_choice := Some ''heads''\<rparr>)"
    by (simp add: coinflip_choice_def get_room_def store_room_def CoinflipGame_init_def
          MultiplayerGame_init_def CoinflipGame_set_creator_choice_def l choice_emoji_ok_def
          CoinflipGame_play_def show_coinflip_result_def get_user_def get_user_opt_def
          bot0_def RoomManager_init_def Let_def split: option.splits)
  from 1 2 3 4 show ?thesis by blast
qed

text \<open>
  Claim C8, amended. \<open>set_creator_choice\<close> is one assignment of the lower-cased
  choice, in every status and over any earlier choice. The guards are those of the
  handler \<open>coinflip_choice\<close>: an unknown room id and a caller who is not the creator
  are refused and nothing changes. For the creator of a coinflip room the handler stores
  the choice first: with a choice that is no key of \<open>choice_emoji\<close> it then raises
  \<open>KeyError\<close>, and on a room that is not being played it raises on the error dict of
  \<open>play\<close>; in both cases the choice stays stored.
\<close>

theorem creator_choice_guard:
  "CoinflipGame_set_creator_choice r choice = r\<lparr>creator_choice := Some (lower choice)\<rparr> \<and>
   (get_room (rooms st) rid = None \<longrightarrow>
      coinflip_choice cfg st uid rid choice flip = (GameAlreadyFinished, st)) \<and>
   (get_room (rooms st) rid = Some r \<and> uid \<noteq> creator_id r \<longrightarrow>
      coinflip_choice cfg st uid rid choice flip = (OnlyCreatorChooses, st)) \<and>
   (get_room (rooms st) rid = Some r \<and> game_type r = ''coinflip'' \<and>
    \<not> choice_emoji_ok choice \<longrightarrow>
      coinflip_choice cfg st (creator_id r) rid choice flip =
        (Raised KeyError,
         st\<lparr>rooms := store_room (rooms st) rid (r\<lparr>creator_choice := Some (lower choice)\<rparr>)\<rparr>)) \<and>
   (get_room (rooms st) rid = Some r \<and> game_type r = ''coinflip'' \<and>
    choice_emoji_ok choice \<and> status r \<noteq> ''playing'' \<longrightarrow>
      (\<exists>e. fst (coinflip_choice cfg st (creator_id r) rid choice flip) = Raised e) \<and>
      snd (coinflip_choice cfg st (creator_id r) rid choice flip) =
        st\<lparr>rooms := store_room (rooms st) rid (r\<lparr>creator_choice := Some choice\<rparr>)\<rparr>)"
proof (intro conjI impI)
  show "CoinflipGame_set_creator_choice r choice = r\<lparr>creator_choice := Some (lower choice)\<rparr>"
    by (simp add: CoinflipGame_set_creator_choice_def)
  show "coinflip_choice cfg st uid rid choice flip = (GameAlreadyFinished, st)"
    if "get_room (rooms st) rid = None"
    using that by (simp add: coinflip_choice_def)
  show "coinflip_choice cfg st uid rid choice flip = (OnlyCreatorChooses, st)"
    if "get_room (rooms st) rid = Some r \<and> uid \<noteq> creator_id r"
    using that by (simp add: coinflip_choice_def)
  show "coinflip_choice cfg st (creator_id r) rid choice flip =
        (Raised KeyError,
         st\<lparr>rooms := store_room (rooms st) rid (r\<lparr>creator_choice := Some (lower choice)\<rparr>)\<rparr>)"
    if "get_room (rooms st) rid = Some r \<and> game_type r = ''coinflip'' \<and> \<not> choice_emoji_ok choice"
    using that by (simp add: coinflip_choice_def CoinflipGame_set_creator_choice_def Let_def)
next
  assume a: "get_room (rooms st) rid = Some r \<and> game_type r = ''coinflip'' \<and>
    choice_emoji_ok choice \<and> status r \<noteq> ''playing''"
  define r1 where "r1 = r\<lparr>creator_choice := Some choice\<rparr>"
  define st1 where "st1 = st\<lparr>rooms := store_room (rooms st) rid r1\<rparr>"
  have low: "lower choice = choice"
    using a by (simp add: lower_side choice_emoji_ok_def)
  have play: "CoinflipGame_play r1 flip = (ErrorDict ''Game is not ready'', r1)"
    using a by (simp add: CoinflipGame_play_def r1_def)
  have run: "coinflip_choice cfg st (creator_id r) rid choice flip =
      show_coinflip_result cfg st1 r1 (ErrorDict ''Game is not ready'')"
    using a
    by (simp add: coinflip_choice_def CoinflipGame_set_creator_choice_def low Let_def play
          r1_def [symmetric] st1_def store_room_twice)
  show "\<exists>e. fst (coinflip_choice cfg st (creator_id r) rid choice flip) = Raised e"
    unfolding run by (simp add: show_coinflip_result_def split: option.splits)
  show "snd (coinflip_choice cfg st (creator_id r) rid choice flip) =
        st\<lparr>rooms := store_room (rooms st) rid (r\<lparr>creator_choice := Some choice\<rparr>)\<rparr>"
    unfolding run
    by (simp add: show_coinflip_result_def st1_def r1_def split: option.splits)
qed

theorem creator_choice_guard_witness:
  "coinflip_choice cfg5
     (bot0\<lparr>rooms := store_room RoomManager_init ''ROOM1001''
                (snd (MultiplayerGame_join (CoinflipGame_init ''ROOM1001'' 1 20) 2))\<rparr>)
     2 ''ROOM1001'' ''heads'' ''tails''
   = (OnlyCreatorChooses,
      bot0\<lparr>rooms := store_room RoomManager_init ''ROOM1001''
                (snd (MultiplayerGame_join (CoinflipGame_init ''ROOM1001'' 1 20) 2))\<rparr>) \<and>
   coinflip_choice cfg5 bot0 1 ''ROOM1001'' ''heads'' ''tails'' = (GameAlreadyFinished, bot0) \<and>
   snd (coinflip_choice cfg5
     (bot0\<lparr>rooms := store_room RoomManager_init ''ROOM1001''
                (CoinflipGame_init ''ROOM1001'' 1 20)\<rparr>)
     1 ''ROOM1001'' ''heads'' ''tails'')
   = bot0\<lparr>rooms := store_room RoomManager_init ''ROOM1001''
                ((CoinflipGame_init ''ROOM1001'' 1 20)\<lparr>creator_choice := Some ''heads''\<rparr>)\<rparr>"
proof -
  let ?w = "CoinflipGame_init ''ROOM1001'' 1 20"
  let ?p = "snd (MultiplayerGame_join ?w 2)"
  let ?sp = "bot0\<lparr>rooms := store_room RoomManager_init ''ROOM1001'' ?p\<rparr>"
  let ?sw = "bot0\<lparr>rooms := store_room RoomManager_init ''ROOM1001'' ?w\<rparr>"
  have regp: "get_room (rooms ?sp) ''ROOM1001'' = Some ?p"
    and regw: "get_room (rooms ?sw) ''ROOM1001'' = Some ?w"
    and reg0: "get_room (rooms bot0) ''ROOM1001'' = None"
    by (simp_all add: get_room_def store_room_def bot0_def RoomManager_init_def)
  have p: "(2::int) \<noteq> creator_id ?p"
    by (simp add: MultiplayerGame_join_def CoinflipGame_init_def MultiplayerGame_init_def)
  have w: "creator_id ?w = 1" "game_type ?w = ''coinflip''" "status ?w \<noteq> ''playing''"
    by (simp_all add: CoinflipGame_init_def MultiplayerGame_init_def)
  have ok: "choice_emoji_ok ''heads''" by (simp add: choice_emoji_ok_def)
  from creator_choice_guard [where r = ?p and st = ?sp and rid = "''ROOM1001''" and cfg = cfg5
      and uid = 2 and choice = "''heads''" and flip = "''tails''"] regp p
  have 1: "coinflip_choice cfg5 ?sp 2 ''ROOM1001'' ''heads'' ''tails'' = (OnlyCreatorChooses, ?sp)"
    by blast
  from creator_choice_guard [where st = bot0 and rid = "''ROOM1001''" and cfg = cfg5
      and uid = 1 and choice = "''heads''" and flip = "''tails''"] reg0
  have 2: "coinflip_choice cfg5 bot0 1 ''ROOM1001'' ''heads'' ''tails'' = (GameAlreadyFinished, bot0)"
    by blast
  from creator_choice_guard [where r = ?w and st = ?sw and rid = "''ROOM1001''" and cfg = cfg5
      and choice = "''heads''" and flip = "''tails''"] regw w ok
  have 3: "snd (coinflip_choice cfg5 ?sw 1 ''ROOM1001'' ''heads'' ''tails'') =
      ?sw\<lparr>rooms := store_room (rooms ?sw) ''ROOM1001'' (?w\<lparr>creator_choice := Some ''heads''\<rparr>)\<rparr>"
    by simp
  from 1 2 3 show ?thesis by (simp add: store_room_twice)
qed

subsection \<open>Order of room creation, join and debit\<close>

text \<open>
  Claim C3, as stated, fails: the room is created, and the join is applied, before the
  stake is debited. In the states that the two handlers write, in program order, the
  first one already holds the new waiting room (respectively the room set to
  \<open>playing\<close> with its opponent) while the balance is still the old one; the debit is
  the second write.
\<close>

theorem room_before_debit_counterexample:
  "length (snd (create_room_with_bet_writes cfg5 bot0 1 (Some 10) ''dice'')) = 2 \<and>
   get_room (rooms (snd (create_room_with_bet_writes cfg5 bot0 1 (Some 10) ''dice'') ! 0))
     ''ROOM1001'' = Some (DiceGame_init ''ROOM1001'' 1 10) \<and>
   get_balance (db (snd (create_room_with_bet_writes cfg5 bot0 1 (Some 10) ''dice'') ! 0)) 1 = 100 \<and>
   get_balance (db (snd (create_room_with_bet_writes cfg5 bot0 1 (Some 10) ''dice'') ! 1)) 1 = 90 \<and>
   length (snd (join_room_writes
     (bot0\<lparr>rooms := snd (create_room RoomManager_init 1 ''dice'' 10)\<rparr>) 2 ''ROOM1001'')) = 2 \<and>
   get_room (rooms (snd (join_room_writes
     (bot0\<lparr>rooms := snd (create_room RoomManager_init 1 ''dice'' 10)\<rparr>) 2 ''ROOM1001'') ! 0))
     ''ROOM1001''
     = Some ((DiceGame_init ''ROOM1001'' 1 10)\<lparr>opponent_id := Some 2, status := ''playing''\<rparr>) \<and>
   get_balance (db (snd (join_room_writes
     (bot0\<lparr>rooms := snd (create_room RoomManager_init 1 ''dice'' 10)\<rparr>) 2 ''ROOM1001'') ! 0)) 2
     = 100 \<and>
   get_balance (db (snd (join_room_writes
     (bot0\<lparr>rooms := snd (create_room RoomManager_init 1 ''dice'' 10)\<rparr>) 2 ''ROOM1001'') ! 1)) 2
     = 90"
proof -
  have cfg: "MIN_BET cfg5 = 1" "MAX_BET cfg5 = 1000" by (simp_all add: cfg5_def)
  have b0: "db bot0 = two_users" "rooms bot0 = RoomManager_init" by (simp_all add: bot0_def)
  have w: "status (DiceGame_init ''ROOM1001'' 1 10) = ''waiting''"
    "creator_id (DiceGame_init ''ROOM1001'' 1 10) = 1" "bet (DiceGame_init ''ROOM1001'' 1 10) = 10"
    by (simp_all add: DiceGame_init_def MultiplayerGame_init_def)
  have c: "create_room_with_bet_writes cfg5 bot0 1 (Some 10) ''dice'' =
      (RoomCreated (room_id (DiceGame_init ''ROOM1001'' 1 10)),
       [bot0\<lparr>rooms := snd (create_room RoomManager_init 1 ''dice'' 10)\<rparr>,
        bot0\<lparr>rooms := snd (create_room RoomManager_init 1 ''dice'' 10),
             db := snd (update_balance two_users 1 (- 10))\<rparr>])"
    by (simp add: create_room_with_bet_writes_def cfg b0 two_users_simps create_room_first
          Let_def)
  have j: "join_room_writes (bot0\<lparr>rooms := snd (create_room RoomManager_init 1 ''dice'' 10)\<rparr>)
             2 ''ROOM1001'' =
      (Inr ((DiceGame_init ''ROOM1001'' 1 10)\<lparr>opponent_id := Some 2, status := ''playing''\<rparr>),
       [bot0\<lparr>rooms := store_room (snd (create_room RoomManager_init 1 ''dice'' 10)) ''ROOM1001''
            ((DiceGame_init ''ROOM1001'' 1 10)\<lparr>opponent_id := Some 2, status := ''playing''\<rparr>)\<rparr>,
        bot0\<lparr>rooms := store_room (snd (create_room RoomManager_init 1 ''dice'' 10)) ''ROOM1001''
            ((DiceGame_init ''ROOM1001'' 1 10)\<lparr>opponent_id := Some 2, status := ''playing''\<rparr>),
             db := snd (update_balance two_users 2 (- 10))\<rparr>])"
    by (simp add: join_room_writes_def join_room_def get_room_def MultiplayerGame_join_def
          create_room_first w b0 two_users_simps store_room_def Let_def)
  show ?thesis
    unfolding c j
    by (simp add: get_room_def store_room_def create_room_first b0 two_users_simps
          get_balance_update_balance)
qed

text \<open>
  Claim C3, amended. \<open>create_room_with_bet\<close> and \<open>join_room\<close> first validate the
  funds; when the balance is lower than the stake they reply "insufficient funds" and
  write nothing. Otherwise (and, for a join, when the caller is not the creator of the
  waiting room) they write twice: first the room is created in the registry,
  respectively the room is set to \<open>playing\<close> with the caller as opponent, and after
  that the stake is debited with \<open>update_balance\<close>, which has no failure result.
\<close>

theorem stake_reserved_after_transition:
  "(parsed = Some b \<and> MIN_BET cfg \<le> b \<and> b \<le> MAX_BET cfg \<and> b \<le> get_balance (db st) uid \<and>
    (gt = ''dice'' \<or> gt = ''coinflip'') \<longrightarrow>
      (\<exists>r. fst (create_room (rooms st) uid gt b) = Some r \<and>
            status r = ''waiting'' \<and> creator_id r = uid \<and> bet r = b \<and>
            get_room (snd (create_room (rooms st) uid gt b)) (room_id r) = Some r \<and>
            create_room_with_bet_writes cfg st uid parsed gt =
              (RoomCreated (room_id r),
               [st\<lparr>rooms := snd (create_room (rooms st) uid gt b)\<rparr>,
                st\<lparr>rooms := snd (create_room (rooms st) uid gt b),
                   db := snd (update_balance (db st) uid (- b))\<rparr>]))) \<and>
   (parsed = Some b \<and> MIN_BET cfg \<le> b \<and> b \<le> MAX_BET cfg \<and> get_balance (db st) uid < b \<longrightarrow>
      create_room_with_bet_writes cfg st uid parsed gt = (InsufficientFunds, []) \<and>
      create_room_with_bet cfg st uid parsed gt = (InsufficientFunds, st)) \<and>
   (get_room (rooms st) rid = Some j \<and> status j = ''waiting'' \<and>
    bet j \<le> get_balance (db st) uid \<and> uid \<noteq> creator_id j \<longrightarrow>
      join_room_writes st uid rid =
        (Inr (j\<lparr>opponent_id := Some uid, status := ''playing''\<rparr>),
         [st\<lparr>rooms := store_room (rooms st) rid
                          (j\<lparr>opponent_id := Some uid, status := ''playing''\<rparr>)\<rparr>,
          st\<lparr>rooms := store_room (rooms st) rid
                          (j\<lparr>opponent_id := Some uid, status := ''playing''\<rparr>),
             db := snd (update_balance (db st) uid (- bet j))\<rparr>])) \<and>
   (get_room (rooms st) rid = Some j \<and> status j = ''waiting'' \<and>
    get_balance (db st) uid < bet j \<longrightarrow>
      join_room_writes st uid rid = (Inl InsufficientFunds, []) \<and>
      main_join_room cfg st uid rid x y = (InsufficientFunds, st))"
proof (intro conjI impI)
  assume a: "parsed = Some b \<and> MIN_BET cfg \<le> b \<and> b \<le> MAX_BET cfg \<and>
    b \<le> get_balance (db st) uid \<and> (gt = ''dice'' \<or> gt = ''coinflip'')"
  obtain r m1 where cr: "create_room (rooms st) uid gt b = (Some r, m1)"
    and r: "status r = ''waiting''" "creator_id r = uid" "bet r = b"
    and reg: "get_room m1 (room_id r) = Some r"
    using a
    by (auto simp: create_room_def generate_room_id_def Let_def get_room_def
          DiceGame_init_def CoinflipGame_init_def MultiplayerGame_init_def)
  have "create_room_with_bet_writes cfg st uid parsed gt =
      (RoomCreated (room_id r),
       [st\<lparr>rooms := m1\<rparr>, st\<lparr>rooms := m1, db := snd (update_balance (db st) uid (- b))\<rparr>])"
    using a by (simp add: create_room_with_bet_writes_def cr Let_def)
  with cr r reg
  show "\<exists>r. fst (create_room (rooms st) uid gt b) = Some r \<and>
            status r = ''waiting'' \<and> creator_id r = uid \<and> bet r = b \<and>
            get_room (snd (create_room (rooms st) uid gt b)) (room_id r) = Some r \<and>
            create_room_with_bet_writes cfg st uid parsed gt =
              (RoomCreated (room_id r),
               [st\<lparr>rooms := snd (create_room (rooms st) uid gt b)\<rparr>,
                st\<lparr>rooms := snd (create_room (rooms st) uid gt b),
                   db := snd (update_balance (db st) uid (- b))\<rparr>])"
    by simp
next
  assume a: "parsed = Some b \<and> MIN_BET cfg \<le> b \<and> b \<le> MAX_BET cfg \<and>
    get_balance (db st) uid < b"
  then show w: "create_room_with_bet_writes cfg st uid parsed gt = (InsufficientFunds, [])"
    by (simp add: create_room_with_bet_writes_def Let_def)
  then show "create_room_with_bet cfg st uid parsed gt = (InsufficientFunds, st)"
    by (simp add: create_room_with_bet_def)
next
  assume a: "get_room (rooms st) rid = Some j \<and> status j = ''waiting'' \<and>
    bet j \<le> get_balance (db st) uid \<and> uid \<noteq> creator_id j"
  then show "join_room_writes st uid rid =
        (Inr (j\<lparr>opponent_id := Some uid, status := ''playing''\<rparr>),
         [st\<lparr>rooms := store_room (rooms st) rid
                          (j\<lparr>opponent_id := Some uid, status := ''playing''\<rparr>)\<rparr>,
          st\<lparr>rooms := store_room (rooms st) rid
                          (j\<lparr>opponent_id := Some uid, status := ''playing''\<rparr>),
             db := snd (update_balance (db st) uid (- bet j))\<rparr>])"
    by (auto simp: join_room_writes_def join_room_def MultiplayerGame_join_def Let_def
          get_room_def store_room_def)
next
  assume a: "get_room (rooms st) rid = Some j \<and> status j = ''waiting'' \<and>
    get_balance (db st) uid < bet j"
  then show w: "join_room_writes st uid rid = (Inl InsufficientFunds, [])"
    by (simp add: join_room_writes_def Let_def)
  then show "main_join_room cfg st uid rid x y = (InsufficientFunds, st)"
    by (simp add: main_join_room_def)
qed

theorem stake_reserved_after_transition_witness:
  "create_room_with_bet_writes cfg5 bot0 1 (Some 10) ''dice'' =
     (RoomCreated ''ROOM1001'',
      [bot0\<lparr>rooms := snd (create_room RoomManager_init 1 ''dice'' 10)\<rparr>,
       bot0\<lparr>rooms := snd (create_room RoomManager_init 1 ''dice'' 10),
            db := snd (update_balance two_users 1 (- 10))\<rparr>]) \<and>
   create_room_with_bet cfg5 bot0 1 (Some 200) ''dice'' = (InsufficientFunds, bot0) \<and>
   join_room_writes (bot0\<lparr>rooms := snd (create_room RoomManager_init 1 ''dice'' 10)\<rparr>)
       2 ''ROOM1001'' =
     (Inr ((DiceGame_init ''ROOM1001'' 1 10)\<lparr>opponent_id := Some 2, status := ''playing''\<rparr>),
      [bot0\<lparr>rooms := store_room (snd (create_room RoomManager_init 1 ''dice'' 10)) ''ROOM1001''
          ((DiceGame_init ''ROOM1001'' 1 10)\<lparr>opponent_id := Some 2, status := ''playing''\<rparr>)\<rparr>,
       bot0\<lparr>rooms := store_room (snd (create_room RoomManager_init 1 ''dice'' 10)) ''ROOM1001''
          ((DiceGame_init ''ROOM1001'' 1 10)\<lparr>opponent_id := Some 2, status := ''playing''\<rparr>),
            db := snd (update_balance two_users 2 (- 10))\<rparr>]) \<and>
   main_join_room cfg5 (bot0\<lparr>rooms := snd (create_room RoomManager_init 1 ''dice'' 200)\<rparr>)
       2 ''ROOM1001'' 6 3 =
     (InsufficientFunds, bot0\<lparr>rooms := snd (create_room RoomManager_init 1 ''dice'' 200)\<rparr>)"
proof -
  have cfg: "MIN_BET cfg5 = 1" "MAX_BET cfg5 = 1000" by (simp_all add: cfg5_def)
  have b0: "db bot0 = two_users" "rooms bot0 = RoomManager_init" by (simp_all add: bot0_def)
  have rid: "room_id (DiceGame_init ''ROOM1001'' 1 10) = ''ROOM1001''"
    by (simp add: DiceGame_init_def MultiplayerGame_init_def)
  from stake_reserved_after_transition
    [where parsed = "Some 10" and b = 10 and cfg = cfg5 and st = bot0 and uid = 1
       and gt = "''dice''"]
  have 1: "create_room_with_bet_writes cfg5 bot0 1 (Some 10) ''dice'' =
     (RoomCreated ''ROOM1001'',
      [bot0\<lparr>rooms := snd (create_room RoomManager_init 1 ''dice'' 10)\<rparr>,
       bot0\<lparr>rooms := snd (create_room RoomManager_init 1 ''dice'' 10),
            db := snd (update_balance two_users 1 (- 10))\<rparr>])"
    by (simp add: cfg b0 two_users_simps create_room_first rid)
  from stake_reserved_after_transition
    [where parsed = "Some 200" and b = 200 and cfg = cfg5 and st = bot0 and uid = 1
       and gt = "''dice''"]
  have 2: "create_room_with_bet cfg5 bot0 1 (Some 200) ''dice'' = (InsufficientFunds, bot0)"
    by (simp add: cfg b0 two_users_simps)
  have j: "status (DiceGame_init ''ROOM1001'' 1 s) = ''waiting''"
    "bet (DiceGame_init ''ROOM1001'' 1 s) = s" "creator_id (DiceGame_init ''ROOM1001'' 1 s) = 1"
    for s
    by (simp_all add: DiceGame_init_def MultiplayerGame_init_def)
  from stake_reserved_after_transition
    [where st = "bot0\<lparr>rooms := snd (create_room RoomManager_init 1 ''dice'' 10)\<rparr>"
       and rid = "''ROOM1001''" and j = "DiceGame_init ''ROOM1001'' 1 10" and uid = 2]
  have 3: "join_room_writes (bot0\<lparr>rooms := snd (create_room RoomManager_init 1 ''dice'' 10)\<rparr>)
       2 ''ROOM1001'' =
     (Inr ((DiceGame_init ''ROOM1001'' 1 10)\<lparr>opponent_id := Some 2, status := ''playing''\<rparr>),
      [bot0\<lparr>rooms := store_room (snd (create_room RoomManager_init 1 ''dice'' 10)) ''ROOM1001''
          ((DiceGame_init ''ROOM1001'' 1 10)\<lparr>opponent_id := Some 2, status := ''playing''\<rparr>)\<rparr>,
       bot0\<lparr>rooms := store_room (snd (create_room RoomManager_init 1 ''dice'' 10)) ''ROOM1001''
          ((DiceGame_init ''ROOM1001'' 1 10)\<lparr>opponent_id := Some 2, status := ''playing''\<rparr>),
            db := snd (update_balance two_users 2 (- 10))\<rparr>])"
    by (simp add: b0 two_users_simps create_room_first get_room_def j)
  from stake_reserved_after_transition
    [where st = "bot0\<lparr>rooms := snd (create_room RoomManager_init 1 ''dice'' 200)\<rparr>"
       and rid = "''ROOM1001''" and j = "DiceGame_init ''ROOM1001'' 1 200" and uid = 2
       and cfg = cfg5 and x = 6 and y = 3]
  have 4: "main_join_room cfg5 (bot0\<lparr>rooms := snd (create_room RoomManager_init 1 ''dice'' 200)\<rparr>)
       2 ''ROOM1001'' 6 3 =
     (InsufficientFunds, bot0\<lparr>rooms := snd (create_room RoomManager_init 1 ''dice'' 200)\<rparr>)"
    by (simp add: b0 two_users_simps create_room_first get_room_def j)
  from 1 2 3 4 show ?thesis by blast
qed

subsection \<open>Rematch: a repeated request\<close>

text \<open>
  Claim C9, as stated, fails for a requester whose balance is below the stake: both
  calls are refused with "insufficient funds", no request is stored, and the second call
  does not report "already waiting".
\<close>

theorem rematch_request_unfunded_counterexample:
  "request_rematch cfg5 bot0 1 ''dice'' 200 1 2 6 3 = (InsufficientFunds, bot0) \<and>
   request_rematch cfg5 (snd (request_rematch cfg5 bot0 1 ''dice'' 200 1 2 6 3))
       1 ''dice'' 200 1 2 6 3 = (InsufficientFunds, bot0) \<and>
   rematch_requests bot0 (1, 2, ''dice'', 200) = None"
proof -
  have "request_rematch cfg5 bot0 1 ''dice'' 200 1 2 6 3 = (InsufficientFunds, bot0)"
    by (simp add: request_rematch_def rematch_pairing_def Let_def bot0_def two_users_simps)
  moreover have "rematch_requests bot0 (1, 2, ''dice'', 200) = None"
    by (simp add: bot0_def)
  ultimately show ?thesis by simp
qed

text \<open>
  Claim C9, amended. A requester whose balance covers the stake asks twice for a
  rematch, and no request of the other player is outstanding for the pairing key. After
  the first call there is one request for the key, held by the requester; no other key,
  no balance and no room has changed. The second call reports "already requested" and
  returns the state unchanged. A requester whose balance is below the stake is refused
  with "insufficient funds" on each of the two calls, and each call returns the state
  unchanged: no request is stored.
\<close>

theorem rematch_request_idempotent:
  "(b \<le> get_balance (db st) uid \<and>
    (\<forall>req. rematch_requests st (min p1 p2, max p1 p2, gt, b) = Some req \<longrightarrow>
           req_requester_id req = uid) \<longrightarrow>
         (\<exists>req. rematch_requests (snd (request_rematch cfg st uid gt b p1 p2 x y))
                  (min p1 p2, max p1 p2, gt, b) = Some req \<and> req_requester_id req = uid) \<and>
         (\<forall>k. k \<noteq> (min p1 p2, max p1 p2, gt, b) \<longrightarrow>
              rematch_requests (snd (request_rematch cfg st uid gt b p1 p2 x y)) k =
              rematch_requests st k) \<and>
         db (snd (request_rematch cfg st uid gt b p1 p2 x y)) = db st \<and>
         rooms (snd (request_rematch cfg st uid gt b p1 p2 x y)) = rooms st \<and>
         request_rematch cfg (snd (request_rematch cfg st uid gt b p1 p2 x y))
             uid gt b p1 p2 x' y' =
           (RematchAlreadyRequested, snd (request_rematch cfg st uid gt b p1 p2 x y))) \<and>
   (get_balance (db st) uid < b \<longrightarrow>
         request_rematch cfg st uid gt b p1 p2 x y = (InsufficientFunds, st) \<and>
         request_rematch cfg (snd (request_rematch cfg st uid gt b p1 p2 x y))
             uid gt b p1 p2 x' y' = (InsufficientFunds, st) \<and>
         rematch_requests (snd (request_rematch cfg (snd (request_rematch cfg st uid gt b
             p1 p2 x y)) uid gt b p1 p2 x' y')) = rematch_requests st)"
proof (rule conjI, rule impI)
  assume hyp: "b \<le> get_balance (db st) uid \<and>
    (\<forall>req. rematch_requests st (min p1 p2, max p1 p2, gt, b) = Some req \<longrightarrow>
           req_requester_id req = uid)"
  have a: "b \<le> get_balance (db st) uid"
    "\<forall>req. rematch_requests st (min p1 p2, max p1 p2, gt, b) = Some req \<longrightarrow>
           req_requester_id req = uid"
    using hyp by blast+
  let ?key = "(min p1 p2, max p1 p2, gt, b)"
  define st1 where "st1 = snd (request_rematch cfg st uid gt b p1 p2 x y)"
  have funds: "\<not> get_balance (db st) uid < b" using a(1) by simp
  have first: "rematch_requests st1 ?key \<noteq> None \<and>
      (\<forall>req. rematch_requests st1 ?key = Some req \<longrightarrow> req_requester_id req = uid) \<and>
      (\<forall>k. k \<noteq> ?key \<longrightarrow> rematch_requests st1 k = rematch_requests st k) \<and>
      db st1 = db st \<and> rooms st1 = rooms st"
  proof (cases "rematch_requests st ?key")
    case None
    then show ?thesis
      using funds
      by (simp add: st1_def request_rematch_def rematch_pairing_def Let_def
            split: option.splits)
  next
    case (Some req)
    with a(2) have "req_requester_id req = uid" by simp
    with Some show ?thesis
      using funds
      by (simp add: st1_def request_rematch_def rematch_pairing_def Let_def)
  qed
  then obtain req where req: "rematch_requests st1 ?key = Some req" "req_requester_id req = uid"
    by auto
  have funds1: "\<not> get_balance (db st1) uid < b" using first funds by simp
  have second: "request_rematch cfg st1 uid gt b p1 p2 x' y' = (RematchAlreadyRequested, st1)"
    using funds1 req
    by (simp add: request_rematch_def rematch_pairing_def Let_def)
  from first req second
  show "(\<exists>req. rematch_requests (snd (request_rematch cfg st uid gt b p1 p2 x y))
                  (min p1 p2, max p1 p2, gt, b) = Some req \<and> req_requester_id req = uid) \<and>
         (\<forall>k. k \<noteq> (min p1 p2, max p1 p2, gt, b) \<longrightarrow>
              rematch_requests (snd (request_rematch cfg st uid gt b p1 p2 x y)) k =
              rematch_requests st k) \<and>
         db (snd (request_rematch cfg st uid gt b p1 p2 x y)) = db st \<and>
         rooms (snd (request_rematch cfg st uid gt b p1 p2 x y)) = rooms st \<and>
         request_rematch cfg (snd (request_rematch cfg st uid gt b p1 p2 x y))
             uid gt b p1 p2 x' y' =
           (RematchAlreadyRequested, snd (request_rematch cfg st uid gt b p1 p2 x y))"
    unfolding st1_def by blast
next
  show "get_balance (db st) uid < b \<longrightarrow>
         request_rematch cfg st uid gt b p1 p2 x y = (InsufficientFunds, st) \<and>
         request_rematch cfg (snd (request_rematch cfg st uid gt b p1 p2 x y))
             uid gt b p1 p2 x' y' = (InsufficientFunds, st) \<and>
         rematch_requests (snd (request_rematch cfg (snd (request_rematch cfg st uid gt b
             p1 p2 x y)) uid gt b p1 p2 x' y')) = rematch_requests st"
    by (simp add: request_rematch_def rematch_pairing_def Let_def)
qed

theorem rematch_request_idempotent_witness:
  "request_rematch cfg5 bot0 1 ''dice'' 10 1 2 6 3 =
     (RematchRequested,
      bot0\<lparr>rematch_requests := [(1, 2, ''dice'', 10) \<mapsto>
        \<lparr>req_requester_id = 1, req_opponent_id = 2, req_game_type = ''dice'', req_bet = 10\<rparr>]\<rparr>) \<and>
   request_rematch cfg5 (snd (request_rematch cfg5 bot0 1 ''dice'' 10 1 2 6 3))
       1 ''dice'' 10 1 2 6 3 =
     (RematchAlreadyRequested,
      bot0\<lparr>rematch_requests := [(1, 2, ''dice'', 10) \<mapsto>
        \<lparr>req_requester_id = 1, req_opponent_id = 2, req_game_type = ''dice'', req_bet = 10\<rparr>]\<rparr>)"
proof -
  have first: "request_rematch cfg5 bot0 1 ''dice'' 10 1 2 6 3 =
     (RematchRequested,
      bot0\<lparr>rematch_requests := [(1, 2, ''dice'', 10) \<mapsto>
        \<lparr>req_requester_id = 1, req_opponent_id = 2, req_game_type = ''dice'', req_bet = 10\<rparr>]\<rparr>)"
  proof -
    obtain u where u: "two_users 1 = Some u" using two_users_simps(1) by auto
    show ?thesis
      by (simp add: request_rematch_def rematch_pairing_def Let_def bot0_def two_users_simps
            get_user_def u)
  qed
  have funds: "(10::real) \<le> get_balance (db bot0) 1 \<and>
      (\<forall>req. rematch_requests bot0 (min 1 2, max 1 2, ''dice'', 10) = Some req \<longrightarrow>
                 req_requester_id req = 1)"
    by (simp add: bot0_def two_users_simps)
  from rematch_request_idempotent [THEN conjunct1, THEN mp, OF funds, of cfg5 6 3 6 3] first
  show ?thesis by simp
qed

subsection \<open>Rematch: the two players agree\<close>




end
